theory Spec2Isabelle
  imports Main
begin

section \<open>JavaScript values\<close>

text \<open>
  The IPC engine of \<^verbatim>\<open>vs/base/parts/ipc/node/ipc.ts\<close> passes values of type
  \<^verbatim>\<open>any\<close> around: header fields read from a parsed JSON array, bodies, call arguments
  and results. They are modelled by one datatype. Numbers are the integers (type tags,
  request ids, body tags). A buffer is the list of its bytes.

  A JavaScript string is a sequence of 16-bit code units. It is written here as a byte
  list, its text in UTF-8, where a surrogate code unit that has no partner is written as
  the three bytes \<open>ED A0..BF 80..BF\<close> that the UTF-8 scheme gives its code point: the
  string \<^verbatim>\<open>"\ud800"\<close> is the bytes \<open>ED A0 80\<close>, an ASCII text is its own bytes. The
  conversions between strings and buffers, \<^verbatim>\<open>Buffer.from(s)\<close> and
  \<^verbatim>\<open>buf.toString()\<close>, belong to the runtime (below).

  \<open>JCyclic\<close> is the object made by \<^verbatim>\<open>const o = {}; o.self = o\<close>, an object that refers to
  itself.
\<close>

type_synonym buffer = "char list"

datatype any =
    JUndefined
  | JNull
  | JBool bool
  | JNum int
  | JStr string
  | JBuffer buffer
  | JArray "any list"
  | JObject "(string \<times> any) list"
  | JCyclic

text \<open>An \<^verbatim>\<open>Error\<close> object with the three properties the engine reads and writes.\<close>

datatype js_Error = NewError (err_message: any) (err_name: any) (err_stack: any)

text \<open>
  What a \<^verbatim>\<open>throw\<close> or a rejected promise carries: \<^verbatim>\<open>data instanceof Error\<close> holds
  exactly for the first constructor.
\<close>

datatype thrown = ErrorInstance js_Error | OtherValue any

definition quote :: "string \<Rightarrow> string" where
  "quote s = [CHR 0x27] @ s @ [CHR 0x27]"

definition TypeError :: "string \<Rightarrow> thrown" where
  "TypeError msg =
     ErrorInstance (NewError (JStr msg) (JStr ''TypeError'') (JStr (''TypeError: '' @ msg)))"

definition RangeError :: "string \<Rightarrow> thrown" where
  "RangeError msg =
     ErrorInstance (NewError (JStr msg) (JStr ''RangeError'') (JStr (''RangeError: '' @ msg)))"

definition SyntaxError :: "string \<Rightarrow> thrown" where
  "SyntaxError msg =
     ErrorInstance (NewError (JStr msg) (JStr ''SyntaxError'') (JStr (''SyntaxError: '' @ msg)))"

subsection \<open>Strings\<close>

text \<open>
  In the byte list of a string every code point is a group of one to four bytes, whose
  first byte tells how many (\<open>code_points\<close>, what iterating the string yields). A code point
  of four bytes is two code units, a surrogate pair; the other code points are one code
  unit (\<open>code_units\<close>, what indexing the string yields).
\<close>

definition utf8_length :: "char \<Rightarrow> nat" where
  "utf8_length b =
     (let n = (of_char b :: nat) in
      if n < 0xC0 then 1 else if n < 0xE0 then 2 else if n < 0xF0 then 3 else 4)"

fun code_points :: "string \<Rightarrow> string list" where
  "code_points [] = []"
| "code_points (b # bs) =
     (b # take (utf8_length b - 1) bs) # code_points (drop (utf8_length b - 1) bs)"

definition surrogates :: "string \<Rightarrow> string list" where
  "surrogates p =
     (let v = ((of_char (p ! 0) :: nat) - 0xF0) * 2 ^ 18 + ((of_char (p ! 1) :: nat) - 0x80) * 2 ^ 12
              + ((of_char (p ! 2) :: nat) - 0x80) * 2 ^ 6 + ((of_char (p ! 3) :: nat) - 0x80)
              - 0x10000
      in [[CHR 0xED, char_of (0xA0 + v div 1024 div 64), char_of (0x80 + v div 1024 mod 64)],
          [CHR 0xED, char_of (0xB0 + v mod 1024 div 64), char_of (0x80 + v mod 1024 mod 64)]])"

definition code_units :: "string \<Rightarrow> string list" where
  "code_units s = concat (map (\<lambda>p. if length p = 4 then surrogates p else [p]) (code_points s))"

text \<open>
  UTF-8 as Node writes and reads it. \<^verbatim>\<open>Buffer.from(s)\<close> writes the UTF-8 of a string,
  U+FFFD (\<open>EF BF BD\<close>) for a surrogate that has no partner. \<^verbatim>\<open>buf.toString()\<close> reads
  UTF-8 and gives U+FFFD for every part of the input that is not UTF-8: it reads a lead
  byte (\<open>utf8_lead\<close>), then as many bytes between \<open>lower\<close> and \<open>upper\<close> as the lead byte
  \<open>needed\<close>. These are the conversions of the reference runtime below.
\<close>

definition replacement :: string where
  "replacement = [CHR 0xEF, CHR 0xBF, CHR 0xBD]"

fun utf8_write :: "string \<Rightarrow> buffer" where
  "utf8_write (a # b # c # rest) =
     (if a = CHR 0xED \<and> 0xA0 \<le> (of_char b :: nat) then replacement @ utf8_write rest
      else a # utf8_write (b # c # rest))"
| "utf8_write s = s"

definition utf8_lead :: "char \<Rightarrow> string \<times> string \<times> nat \<times> nat \<times> nat" where
  "utf8_lead b =
     (let n = (of_char b :: nat) in
      if n < 0x80 then ([b], [], 0, 0x80, 0xBF)
      else if 0xC2 \<le> n \<and> n \<le> 0xDF then ([], [b], 1, 0x80, 0xBF)
      else if 0xE0 \<le> n \<and> n \<le> 0xEF then
        ([], [b], 2, if n = 0xE0 then 0xA0 else 0x80, if n = 0xED then 0x9F else 0xBF)
      else if 0xF0 \<le> n \<and> n \<le> 0xF4 then
        ([], [b], 3, if n = 0xF0 then 0x90 else 0x80, if n = 0xF4 then 0x8F else 0xBF)
      else (replacement, [], 0, 0x80, 0xBF))"

fun utf8_read :: "string \<Rightarrow> nat \<Rightarrow> nat \<Rightarrow> nat \<Rightarrow> buffer \<Rightarrow> string" where
  "utf8_read seen needed lower upper [] = (if needed = 0 then [] else replacement)"
| "utf8_read seen needed lower upper (b # bs) =
     (if needed \<noteq> 0 \<and> lower \<le> (of_char b :: nat) \<and> (of_char b :: nat) \<le> upper then
        (if needed = 1 then seen @ [b] @ utf8_read [] 0 0x80 0xBF bs
         else utf8_read (seen @ [b]) (needed - 1) 0x80 0xBF bs)
      else
        (case utf8_lead b of
           (out, seen', needed', lower', upper') \<Rightarrow>
             (if needed \<noteq> 0 then replacement else []) @ out
               @ utf8_read seen' needed' lower' upper' bs))"

definition utf8_decode :: "buffer \<Rightarrow> string" where
  "utf8_decode bs = utf8_read [] 0 0x80 0xBF bs"

subsection \<open>Coercions\<close>

definition digit_char :: "nat \<Rightarrow> char" where
  "digit_char d = ''0123456789'' ! d"

fun digits :: "nat \<Rightarrow> string" where
  "digits n = (if n < 10 then [digit_char n] else digits (n div 10) @ [digit_char (n mod 10)])"

declare digits.simps [simp del]

definition Number_toString :: "int \<Rightarrow> string" where
  "Number_toString i = (if i < 0 then CHR ''-'' # digits (nat (- i)) else digits (nat i))"

fun join :: "string \<Rightarrow> string list \<Rightarrow> string" where
  "join sep [] = []"
| "join sep [x] = x"
| "join sep (x # y # ys) = x @ sep @ join sep (y # ys)"

text \<open>
  \<^verbatim>\<open>ToString\<close>, which also gives the property key of \<^verbatim>\<open>obj[v]\<close>: the engine indexes
  \<^verbatim>\<open>channels\<close>, \<^verbatim>\<open>activeRequests\<close> and \<^verbatim>\<open>handlers\<close> with values read from the wire.
\<close>

fun to_string :: "any \<Rightarrow> string" where
  "to_string JUndefined = ''undefined''"
| "to_string JNull = ''null''"
| "to_string (JBool b) = (if b then ''true'' else ''false'')"
| "to_string (JNum i) = Number_toString i"
| "to_string (JStr s) = s"
| "to_string (JBuffer b) = utf8_decode b"
| "to_string (JArray xs) =
     join '','' (map (\<lambda>x. if x = JUndefined \<or> x = JNull then [] else to_string x) xs)"
| "to_string (JObject kvs) = ''[object Object]''"
| "to_string JCyclic = ''[object Object]''"

fun truthy :: "any \<Rightarrow> bool" where
  "truthy JUndefined = False"
| "truthy JNull = False"
| "truthy (JBool b) = b"
| "truthy (JNum i) = (i \<noteq> 0)"
| "truthy (JStr s) = (s \<noteq> [])"
| "truthy (JBuffer b) = True"
| "truthy (JArray xs) = True"
| "truthy (JObject kvs) = True"
| "truthy JCyclic = True"

text \<open>
  \<^verbatim>\<open>v[i]\<close> for a numeric index: reading a property of \<^verbatim>\<open>undefined\<close> or \<^verbatim>\<open>null\<close>
  throws, an index out of range is \<^verbatim>\<open>undefined\<close>.
\<close>

fun get_index :: "any \<Rightarrow> nat \<Rightarrow> thrown + any" where
  "get_index JUndefined i =
     Inl (TypeError (''Cannot read property '' @ quote (digits i) @ '' of undefined''))"
| "get_index JNull i =
     Inl (TypeError (''Cannot read property '' @ quote (digits i) @ '' of null''))"
| "get_index (JArray xs) i = Inr (if i < length xs then xs ! i else JUndefined)"
| "get_index (JStr s) i =
     Inr (if i < length (code_units s) then JStr (code_units s ! i) else JUndefined)"
| "get_index (JBuffer b) i = Inr (if i < length b then JNum (of_char (b ! i)) else JUndefined)"
| "get_index (JObject kvs) i =
     Inr (case map_of kvs (digits i) of None \<Rightarrow> JUndefined | Some v \<Rightarrow> v)"
| "get_index (JBool b) i = Inr JUndefined"
| "get_index (JNum n) i = Inr JUndefined"
| "get_index JCyclic i = Inr JUndefined"

text \<open>
  \<^verbatim>\<open>v.key\<close> for the keys the engine reads (\<^verbatim>\<open>message\<close>, \<^verbatim>\<open>name\<close>, \<^verbatim>\<open>stack\<close>):
  none of them is a built-in property of a string, array, number, boolean or buffer.
\<close>

fun get_prop :: "any \<Rightarrow> string \<Rightarrow> thrown + any" where
  "get_prop JUndefined k =
     Inl (TypeError (''Cannot read property '' @ quote k @ '' of undefined''))"
| "get_prop JNull k =
     Inl (TypeError (''Cannot read property '' @ quote k @ '' of null''))"
| "get_prop (JObject kvs) k = Inr (case map_of kvs k of None \<Rightarrow> JUndefined | Some v \<Rightarrow> v)"
| "get_prop JCyclic k = Inr (if k = ''self'' then JCyclic else JUndefined)"
| "get_prop v k = Inr JUndefined"

text \<open>
  The array destructuring \<^verbatim>\<open>const [a, b] = v\<close>: arrays and strings are iterable, the
  other values are not.
\<close>

fun destructure2 :: "any \<Rightarrow> thrown + (any \<times> any)" where
  "destructure2 (JArray xs) =
     Inr (if 0 < length xs then xs ! 0 else JUndefined, if 1 < length xs then xs ! 1 else JUndefined)"
| "destructure2 (JStr s) =
     Inr (if 0 < length (code_points s) then JStr (code_points s ! 0) else JUndefined,
          if 1 < length (code_points s) then JStr (code_points s ! 1) else JUndefined)"
| "destructure2 (JBuffer b) =
     Inr (if 0 < length b then JNum (of_char (b ! 0)) else JUndefined,
          if 1 < length b then JNum (of_char (b ! 1)) else JUndefined)"
| "destructure2 v = Inl (TypeError (to_string v @ '' is not iterable''))"

subsection \<open>The runtime\<close>

text \<open>
  \<^verbatim>\<open>JSON.stringify\<close>, \<^verbatim>\<open>JSON.parse\<close>, \<^verbatim>\<open>Buffer.from(string)\<close> and
  \<^verbatim>\<open>buffer.toString()\<close> belong to the JavaScript runtime, not to the repository. Every
  function that calls them takes them as a parameter, so the theorems below hold for every
  runtime. \<^verbatim>\<open>JSON.stringify\<close> throws for some values (a cyclic object), \<^verbatim>\<open>JSON.parse\<close>
  throws for a text that is not JSON; \<^verbatim>\<open>Buffer.from\<close> writes a string in UTF-8 and
  \<^verbatim>\<open>toString\<close> reads UTF-8, and neither throws.

  A string is well formed for a runtime when reading its UTF-8 gives the string back. A
  value is JSON-serializable when \<^verbatim>\<open>JSON.stringify\<close> returns a text for it and parsing
  that text, once written to a buffer and read from it, gives the value back.
\<close>

record runtime =
  JSON_stringify :: "any \<Rightarrow> thrown + string"
  JSON_parse :: "string \<Rightarrow> thrown + any"
  Buffer_from :: "string \<Rightarrow> buffer"
  Buffer_toString :: "buffer \<Rightarrow> string"

definition well_formed :: "runtime \<Rightarrow> string \<Rightarrow> bool" where
  "well_formed rt s = (Buffer_toString rt (Buffer_from rt s) = s)"

definition json_serializable :: "runtime \<Rightarrow> any \<Rightarrow> bool" where
  "json_serializable rt v =
     (case JSON_stringify rt v of
        Inl err \<Rightarrow> False
      | Inr text \<Rightarrow> JSON_parse rt (Buffer_toString rt (Buffer_from rt text)) = Inr v)"

section \<open>Frame codec\<close>

text \<open>\<^verbatim>\<open>enum BodyType { Undefined, String, Buffer, Object }\<close>, numbered from 0.\<close>

datatype BodyType = BT_Undefined | BT_String | BT_Buffer | BT_Object

fun BodyType_tag :: "BodyType \<Rightarrow> int" where
  "BodyType_tag BT_Undefined = 0"
| "BodyType_tag BT_String = 1"
| "BodyType_tag BT_Buffer = 2"
| "BodyType_tag BT_Object = 3"

fun serializeBody :: "runtime \<Rightarrow> any \<Rightarrow> thrown + (buffer \<times> BodyType)" where
  "serializeBody rt JUndefined = Inr ([], BT_Undefined)"
| "serializeBody rt (JStr s) = Inr (Buffer_from rt s, BT_String)"
| "serializeBody rt (JBuffer b) = Inr (b, BT_Buffer)"
| "serializeBody rt body =
     (case JSON_stringify rt body of
        Inl err \<Rightarrow> Inl err
      | Inr text \<Rightarrow> Inr (Buffer_from rt text, BT_Object))"

text \<open>
  \<^verbatim>\<open>buf.writeUInt32BE(n, 0)\<close> on a fresh 4-byte buffer throws a RangeError when \<open>n\<close>
  does not fit 32 bits; \<^verbatim>\<open>buf.readUInt32BE(0)\<close> throws one when the buffer has fewer than
  4 bytes.
\<close>

definition writeUInt32BE :: "nat \<Rightarrow> thrown + buffer" where
  "writeUInt32BE n =
     (if n < 2 ^ 32
      then Inr [char_of (n div 2 ^ 24), char_of (n div 2 ^ 16), char_of (n div 2 ^ 8), char_of n]
      else Inl (RangeError ''The value is out of range''))"

fun readUInt32BE :: "buffer \<Rightarrow> thrown + nat" where
  "readUInt32BE (b0 # b1 # b2 # b3 # rest) =
     Inr (of_char b0 * 2 ^ 24 + of_char b1 * 2 ^ 16 + of_char b2 * 2 ^ 8 + of_char b3)"
| "readUInt32BE b = Inl (RangeError ''Index out of range'')"

definition serialize :: "runtime \<Rightarrow> any \<Rightarrow> any \<Rightarrow> thrown + buffer" where
  "serialize rt header body =
     (case serializeBody rt body of
        Inl err \<Rightarrow> Inl err
      | Inr (bodyBuffer, bodyType) \<Rightarrow>
          (case JSON_stringify rt (JArray [header, JNum (BodyType_tag bodyType)]) of
             Inl err \<Rightarrow> Inl err
           | Inr text \<Rightarrow>
               (let headerBuffer = Buffer_from rt text
                in case writeUInt32BE (length headerBuffer) of
                     Inl err \<Rightarrow> Inl err
                   | Inr headerSizeBuffer \<Rightarrow> Inr (headerSizeBuffer @ headerBuffer @ bodyBuffer))))"

definition deserializeBody :: "runtime \<Rightarrow> buffer \<Rightarrow> any \<Rightarrow> thrown + any" where
  "deserializeBody rt bodyBuffer bodyType =
     (if bodyType = JNum 0 then Inr JUndefined
      else if bodyType = JNum 1 then Inr (JStr (Buffer_toString rt bodyBuffer))
      else if bodyType = JNum 2 then Inr (JBuffer bodyBuffer)
      else if bodyType = JNum 3 then JSON_parse rt (Buffer_toString rt bodyBuffer)
      else Inr JUndefined)"

definition deserialize :: "runtime \<Rightarrow> buffer \<Rightarrow> thrown + (any \<times> any)" where
  "deserialize rt buffer =
     (case readUInt32BE buffer of
        Inl err \<Rightarrow> Inl err
      | Inr headerSize \<Rightarrow>
          (let headerBuffer = take headerSize (drop 4 buffer);
               bodyBuffer = drop (4 + headerSize) buffer
           in case JSON_parse rt (Buffer_toString rt headerBuffer) of
                Inl err \<Rightarrow> Inl err
              | Inr parsed \<Rightarrow>
                  (case destructure2 parsed of
                     Inl err \<Rightarrow> Inl err
                   | Inr (header, bodyType) \<Rightarrow>
                       (case deserializeBody rt bodyBuffer bodyType of
                          Inl err \<Rightarrow> Inl err
                        | Inr body \<Rightarrow> Inr (header, body)))))"

lemma be32_digits:
  fixes n :: nat
  assumes "n < 2 ^ 32"
  shows "n div 2 ^ 24 mod 256 * 2 ^ 24 + n div 2 ^ 16 mod 256 * 2 ^ 16
        + n div 2 ^ 8 mod 256 * 2 ^ 8 + n mod 256 = n"
proof -
  define a where "a = n div 256"
  define b where "b = a div 256"
  define c where "c = b div 256"
  have d8: "n div 2 ^ 8 = a" by (simp add: a_def)
  have d16: "n div 2 ^ 16 = b"
    using div_mult2_eq [of n 256 256] by (simp add: a_def b_def)
  have d24: "n div 2 ^ 24 = c"
    using div_mult2_eq [of n 65536 256] d16 by (simp add: c_def)
  have c256: "c < 256"
    using assms d24 by (simp add: less_mult_imp_div_less)
  have n: "n = a * 256 + n mod 256" by (simp add: a_def)
  have a: "a = b * 256 + a mod 256" by (simp add: b_def)
  have b: "b = c * 256 + b mod 256" by (simp add: c_def)
  have "c mod 256 * 2 ^ 24 + b mod 256 * 2 ^ 16 + a mod 256 * 2 ^ 8 + n mod 256 = n"
    using n a b c256 by simp
  then show ?thesis by (simp only: d8 d16 d24)
qed

lemma readUInt32BE_writeUInt32BE:
  assumes "n < 2 ^ 32"
  shows "\<exists>sz. writeUInt32BE n = Inr sz \<and> length sz = 4 \<and> readUInt32BE (sz @ rest) = Inr n"
  using assms be32_digits [OF assms] by (simp add: writeUInt32BE_def)

section \<open>A reference runtime\<close>

text \<open>
  One concrete runtime, used where a theorem is instantiated: a printer that writes what
  \<^verbatim>\<open>JSON.stringify\<close> writes for the values of the model that have a JSON text (it throws
  for a value that contains a cyclic object), a recursive-descent reader for JSON text with
  integer numerals (the nat argument bounds the recursion; two steps per character are
  enough), and the UTF-8 conversions of \<^verbatim>\<open>Buffer\<close>.
\<close>

definition dq :: char where "dq = CHR 0x22"
definition bsl :: char where "bsl = CHR 0x5C"

definition hex_char :: "nat \<Rightarrow> char" where
  "hex_char d = ''0123456789abcdef'' ! d"

definition escape_char :: "char \<Rightarrow> string" where
  "escape_char c =
     (if c = dq then [bsl, dq]
      else if c = bsl then [bsl, bsl]
      else if c = CHR 0x08 then [bsl, CHR ''b'']
      else if c = CHR 0x09 then [bsl, CHR ''t'']
      else if c = CHR 0x0A then [bsl, CHR ''n'']
      else if c = CHR 0x0C then [bsl, CHR ''f'']
      else if c = CHR 0x0D then [bsl, CHR ''r'']
      else if (of_char c :: nat) < 32
        then [bsl, CHR ''u'', CHR ''0'', CHR ''0'', hex_char (of_char c div 16), hex_char (of_char c mod 16)]
      else [c])"

definition quote_json :: "string \<Rightarrow> string" where
  "quote_json s = [dq] @ concat (map escape_char s) @ [dq]"

fun json_text :: "any \<Rightarrow> string" where
  "json_text JUndefined = ''null''"
| "json_text JNull = ''null''"
| "json_text (JBool b) = (if b then ''true'' else ''false'')"
| "json_text (JNum i) = Number_toString i"
| "json_text (JStr s) = quote_json s"
| "json_text (JBuffer b) =
     ''{'' @ quote_json ''type'' @ '':'' @ quote_json ''Buffer'' @ '','' @ quote_json ''data'' @ '':[''
       @ join '','' (map (\<lambda>c. digits (of_char c)) b) @ '']}''"
| "json_text (JArray xs) = ''['' @ join '','' (map json_text xs) @ '']''"
| "json_text (JObject kvs) =
     ''{'' @ join '','' (map (\<lambda>kv. quote_json (fst kv) @ '':'' @ json_text (snd kv))
                         (filter (\<lambda>kv. snd kv \<noteq> JUndefined) kvs)) @ ''}''"
| "json_text JCyclic = []"

fun circular :: "any \<Rightarrow> bool" where
  "circular JCyclic = True"
| "circular (JArray xs) = list_ex circular xs"
| "circular (JObject kvs) = list_ex (\<lambda>kv. circular (snd kv)) kvs"
| "circular v = False"

definition is_ws :: "char \<Rightarrow> bool" where
  "is_ws c = (c = CHR '' '' \<or> c = CHR 0x09 \<or> c = CHR 0x0A \<or> c = CHR 0x0D)"

definition skip_ws :: "string \<Rightarrow> string" where
  "skip_ws s = dropWhile is_ws s"

definition is_digit :: "char \<Rightarrow> bool" where
  "is_digit c = (48 \<le> (of_char c :: nat) \<and> (of_char c :: nat) \<le> 57)"

definition hex_val :: "char \<Rightarrow> nat option" where
  "hex_val c =
     (let n = (of_char c :: nat) in
      if 48 \<le> n \<and> n \<le> 57 then Some (n - 48)
      else if 97 \<le> n \<and> n \<le> 102 then Some (n - 87)
      else if 65 \<le> n \<and> n \<le> 70 then Some (n - 55)
      else None)"

fun unescape :: "char \<Rightarrow> string \<Rightarrow> (char \<times> nat) option" where
  "unescape e r =
     (if e = dq \<or> e = bsl \<or> e = CHR ''/'' then Some (e, 0)
      else if e = CHR ''b'' then Some (CHR 0x08, 0)
      else if e = CHR ''t'' then Some (CHR 0x09, 0)
      else if e = CHR ''n'' then Some (CHR 0x0A, 0)
      else if e = CHR ''f'' then Some (CHR 0x0C, 0)
      else if e = CHR ''r'' then Some (CHR 0x0D, 0)
      else if e = CHR ''u'' then
        (case r of
           a # b # c # d # _ \<Rightarrow>
             (case (hex_val a, hex_val b, hex_val c, hex_val d) of
                (Some 0, Some 0, Some h, Some l) \<Rightarrow>
                  if h < 8 then Some (char_of (16 * h + l), 4) else None
              | _ \<Rightarrow> None)
         | _ \<Rightarrow> None)
      else None)"

fun read_chars :: "string \<Rightarrow> (string \<times> string) option" where
  "read_chars [] = None"
| "read_chars (c # r) =
     (if c = dq then Some ([], r)
      else if c = bsl then
        (case r of
           [] \<Rightarrow> None
         | e # r' \<Rightarrow>
             (case unescape e r' of
                None \<Rightarrow> None
              | Some (ch, k) \<Rightarrow>
                  (case read_chars (drop k r') of
                     None \<Rightarrow> None
                   | Some (s, t) \<Rightarrow> Some (ch # s, t))))
      else if (of_char c :: nat) < 32 then None
      else (case read_chars r of None \<Rightarrow> None | Some (s, t) \<Rightarrow> Some (c # s, t)))"

definition read_nat :: "string \<Rightarrow> (nat \<times> string) option" where
  "read_nat s =
     (let ds = takeWhile is_digit s; r = dropWhile is_digit s in
      if ds = [] \<or> (hd ds = CHR ''0'' \<and> length ds > 1) then None
      else if r \<noteq> [] \<and> (hd r = CHR ''.'' \<or> hd r = CHR ''e'' \<or> hd r = CHR ''E'') then None
      else Some (foldl (\<lambda>a c. 10 * a + ((of_char c :: nat) - 48)) 0 ds, r))"

datatype read_mode = MValue | MElements | MMembers

datatype read_result = PValue any | PElements "any list" | PMembers "(string \<times> any) list"

definition read_atom :: "string \<Rightarrow> (read_result \<times> string) option" where
  "read_atom s =
     (if take 4 s = ''true'' then Some (PValue (JBool True), drop 4 s)
      else if take 5 s = ''false'' then Some (PValue (JBool False), drop 5 s)
      else if take 4 s = ''null'' then Some (PValue JNull, drop 4 s)
      else if take 1 s = ''-'' then
        (case read_nat (drop 1 s) of
           None \<Rightarrow> None
         | Some (k, t) \<Rightarrow> Some (PValue (JNum (- int k)), t))
      else (case read_nat s of None \<Rightarrow> None | Some (k, t) \<Rightarrow> Some (PValue (JNum (int k)), t)))"

definition read_key :: "string \<Rightarrow> (string \<times> string) option" where
  "read_key s =
     (case skip_ws s of
        [] \<Rightarrow> None
      | q # r \<Rightarrow>
          if q \<noteq> dq then None
          else (case read_chars r of
                  None \<Rightarrow> None
                | Some (k, r1) \<Rightarrow>
                    (case skip_ws r1 of
                       [] \<Rightarrow> None
                     | col # r2 \<Rightarrow> if col = CHR '':'' then Some (k, r2) else None)))"

primrec read_json :: "nat \<Rightarrow> read_mode \<Rightarrow> string \<Rightarrow> (read_result \<times> string) option" where
  "read_json 0 m s = None"
| "read_json (Suc n) m s =
     (case m of
        MValue \<Rightarrow>
          (case skip_ws s of
             [] \<Rightarrow> None
           | c # r \<Rightarrow>
               if c = dq then
                 (case read_chars r of None \<Rightarrow> None | Some (str, t) \<Rightarrow> Some (PValue (JStr str), t))
               else if c = CHR ''['' then
                 (if take 1 (skip_ws r) = '']'' then Some (PValue (JArray []), drop 1 (skip_ws r))
                  else (case read_json n MElements r of
                          Some (PElements vs, u) \<Rightarrow> Some (PValue (JArray vs), u)
                        | _ \<Rightarrow> None))
               else if c = CHR ''{'' then
                 (if take 1 (skip_ws r) = ''}'' then Some (PValue (JObject []), drop 1 (skip_ws r))
                  else (case read_json n MMembers r of
                          Some (PMembers kvs, u) \<Rightarrow> Some (PValue (JObject kvs), u)
                        | _ \<Rightarrow> None))
               else read_atom (c # r))
      | MElements \<Rightarrow>
          (case read_json n MValue s of
             Some (PValue v, r) \<Rightarrow>
               (if take 1 (skip_ws r) = '']'' then Some (PElements [v], drop 1 (skip_ws r))
                else if take 1 (skip_ws r) = '','' then
                  (case read_json n MElements (drop 1 (skip_ws r)) of
                     Some (PElements vs, u) \<Rightarrow> Some (PElements (v # vs), u)
                   | _ \<Rightarrow> None)
                else None)
           | _ \<Rightarrow> None)
      | MMembers \<Rightarrow>
          (case read_key s of
             None \<Rightarrow> None
           | Some (k, r2) \<Rightarrow>
               (case read_json n MValue r2 of
                  Some (PValue v, r) \<Rightarrow>
                    (if take 1 (skip_ws r) = ''}'' then Some (PMembers [(k, v)], drop 1 (skip_ws r))
                     else if take 1 (skip_ws r) = '','' then
                       (case read_json n MMembers (drop 1 (skip_ws r)) of
                          Some (PMembers kvs, u) \<Rightarrow> Some (PMembers ((k, v) # kvs), u)
                        | _ \<Rightarrow> None)
                     else None)
                | _ \<Rightarrow> None)))"

definition json_read :: "string \<Rightarrow> thrown + any" where
  "json_read s =
     (case read_json (2 * length s + 2) MValue s of
        Some (PValue v, r) \<Rightarrow>
          if skip_ws r = [] then Inr v else Inl (SyntaxError ''Unexpected token in JSON'')
      | _ \<Rightarrow> Inl (SyntaxError ''Unexpected token in JSON''))"

definition json_rt :: runtime where
  "json_rt =
     \<lparr> JSON_stringify =
         (\<lambda>v. if circular v then Inl (TypeError ''Converting circular structure to JSON'')
              else Inr (json_text v)),
       JSON_parse = json_read,
       Buffer_from = utf8_write,
       Buffer_toString = utf8_decode \<rparr>"

text \<open>ASCII text is written and read as it is.\<close>

definition ascii :: "string \<Rightarrow> bool" where
  "ascii s = list_all (\<lambda>c. (of_char c :: nat) < 128) s"

lemma ascii_simps [simp]:
  "ascii []" "ascii (c # s) = ((of_char c :: nat) < 128 \<and> ascii s)"
  "ascii (s @ t) = (ascii s \<and> ascii t)"
  by (simp_all add: ascii_def)

lemma utf8_read_ascii: "ascii s \<Longrightarrow> utf8_read [] 0 lower upper s = s"
  by (induction s arbitrary: lower upper) (simp_all add: utf8_lead_def)

lemma utf8_decode_ascii: "ascii s \<Longrightarrow> utf8_decode s = s"
  by (simp add: utf8_decode_def utf8_read_ascii)

lemma utf8_write_ascii: "ascii s \<Longrightarrow> utf8_write s = s"
  by (induction s rule: utf8_write.induct) auto

lemma length_utf8_write: "length (utf8_write s) = length s"
  by (induction s rule: utf8_write.induct) (simp_all add: replacement_def)

lemma json_rt_simps [simp]:
  "JSON_parse json_rt = json_read"
  "Buffer_from json_rt = utf8_write"
  "Buffer_toString json_rt = utf8_decode"
  "JSON_stringify json_rt v
   = (if circular v then Inl (TypeError ''Converting circular structure to JSON'')
      else Inr (json_text v))"
  by (simp_all add: json_rt_def)

section \<open>Requests and responses\<close>

text \<open>
  \<^verbatim>\<open>IRawRequest\<close> and \<^verbatim>\<open>IRawResponse\<close>: the \<^verbatim>\<open>type\<close> field is the constructor
  (\<^verbatim>\<open>RequestType\<close> 100 to 103, \<^verbatim>\<open>ResponseType\<close> 200 to 204). The fields of a request
  decoded from the wire are whatever the header array holds, so they are of type \<open>any\<close>.
\<close>

datatype IRawRequest =
    Promise any any any any
  | PromiseCancel any
  | EventListen any any any any
  | EventDispose any

datatype IRawResponse =
    Initialize
  | PromiseSuccess any any
  | PromiseError any any
  | PromiseErrorObj any any
  | EventFire any any

text \<open>
  The buffer \<^verbatim>\<open>ChannelClient.sendRequest\<close> and \<^verbatim>\<open>ChannelServer.sendResponse\<close> hand to
  \<^verbatim>\<open>protocol.send\<close>.
\<close>

fun sendRequest_buffer :: "runtime \<Rightarrow> IRawRequest \<Rightarrow> thrown + buffer" where
  "sendRequest_buffer rt (Promise rid channelName name arg) =
     serialize rt (JArray [JNum 100, rid, channelName, name]) arg"
| "sendRequest_buffer rt (EventListen rid channelName name arg) =
     serialize rt (JArray [JNum 102, rid, channelName, name]) arg"
| "sendRequest_buffer rt (PromiseCancel rid) = serialize rt (JArray [JNum 101, rid]) JUndefined"
| "sendRequest_buffer rt (EventDispose rid) = serialize rt (JArray [JNum 103, rid]) JUndefined"

fun sendResponse_buffer :: "runtime \<Rightarrow> IRawResponse \<Rightarrow> thrown + buffer" where
  "sendResponse_buffer rt Initialize = serialize rt (JArray [JNum 200]) JUndefined"
| "sendResponse_buffer rt (PromiseSuccess rid data) = serialize rt (JArray [JNum 201, rid]) data"
| "sendResponse_buffer rt (PromiseError rid data) = serialize rt (JArray [JNum 202, rid]) data"
| "sendResponse_buffer rt (PromiseErrorObj rid data) = serialize rt (JArray [JNum 203, rid]) data"
| "sendResponse_buffer rt (EventFire rid data) = serialize rt (JArray [JNum 204, rid]) data"

text \<open>The \<^verbatim>\<open>headerBuffer\<close> that \<^verbatim>\<open>deserialize\<close> cuts out of a frame: its header JSON.\<close>

definition headerBuffer_of :: "buffer \<Rightarrow> thrown + buffer" where
  "headerBuffer_of buffer =
     (case readUInt32BE buffer of
        Inl err \<Rightarrow> Inl err
      | Inr headerSize \<Rightarrow> Inr (take headerSize (drop 4 buffer)))"

text \<open>
  The body-type class of a value: undefined, a string, a buffer, and a structured value
  for everything else.
\<close>

fun bodyType_of :: "any \<Rightarrow> BodyType" where
  "bodyType_of JUndefined = BT_Undefined"
| "bodyType_of (JStr s) = BT_String"
| "bodyType_of (JBuffer b) = BT_Buffer"
| "bodyType_of v = BT_Object"

text \<open>
  The bodies of the round trip, class by class: undefined, a well-formed string, a
  buffer, a JSON-serializable structured value.
\<close>

fun transmissible :: "runtime \<Rightarrow> any \<Rightarrow> bool" where
  "transmissible rt JUndefined = True"
| "transmissible rt (JStr s) = well_formed rt s"
| "transmissible rt (JBuffer b) = True"
| "transmissible rt v = json_serializable rt v"

text \<open>The JSON text of a value, written to a buffer, fits the 32-bit length prefix.\<close>

definition fits_prefix :: "runtime \<Rightarrow> any \<Rightarrow> bool" where
  "fits_prefix rt v =
     (case JSON_stringify rt v of
        Inl err \<Rightarrow> True
      | Inr text \<Rightarrow> length (Buffer_from rt text) < 2 ^ 32)"

section \<open>Frames\<close>

lemma writeUInt32BE_Inr:
  assumes "writeUInt32BE n = Inr sz"
  shows "n < 2 ^ 32 \<and> length sz = 4 \<and> readUInt32BE (sz @ rest) = Inr n"
proof -
  have n: "n < 2 ^ 32"
    using assms by (simp add: writeUInt32BE_def split: if_splits)
  from readUInt32BE_writeUInt32BE [OF n, of rest] assms n show ?thesis by auto
qed

lemma writeUInt32BE_small:
  assumes "n < 256"
  shows "writeUInt32BE n = Inr [CHR 0x00, CHR 0x00, CHR 0x00, char_of n]"
  using assms by (simp add: writeUInt32BE_def char_of_eq_iff)

text \<open>What \<^verbatim>\<open>deserialize\<close> does with a length prefix, a header and a body.\<close>

lemma deserialize_frame:
  assumes "writeUInt32BE (length hb) = Inr sz"
  shows "deserialize rt (sz @ hb @ bb)
         = (case JSON_parse rt (Buffer_toString rt hb) of
              Inl err \<Rightarrow> Inl err
            | Inr parsed \<Rightarrow>
                (case destructure2 parsed of
                   Inl err \<Rightarrow> Inl err
                 | Inr (header, bodyType) \<Rightarrow>
                     (case deserializeBody rt bb bodyType of
                        Inl err \<Rightarrow> Inl err
                      | Inr body \<Rightarrow> Inr (header, body))))"
proof -
  from writeUInt32BE_Inr [OF assms, of "hb @ bb"]
  have sz: "length sz = 4" "readUInt32BE (sz @ hb @ bb) = Inr (length hb)" by simp_all
  show ?thesis by (simp add: deserialize_def sz)
qed

lemma serializeBody_type:
  assumes "serializeBody rt body = Inr (bodyBuffer, bodyType)"
  shows "bodyType = bodyType_of body"
  using assms by (cases body) (auto split: sum.splits)

text \<open>
  Concrete frames for the instances below. A frame whose header text is shorter than 256
  bytes is three zero bytes, the length, the header text and the body.
\<close>

definition test_frame :: "string \<Rightarrow> buffer \<Rightarrow> buffer" where
  "test_frame headerText body =
     [CHR 0x00, CHR 0x00, CHR 0x00, char_of (length headerText)] @ headerText @ body"

lemma test_frame_parts:
  assumes "length hdr < 256"
  shows "test_frame hdr body = [CHR 0x00, CHR 0x00, CHR 0x00, char_of (length hdr)] @ hdr @ body"
    and "writeUInt32BE (length hdr) = Inr [CHR 0x00, CHR 0x00, CHR 0x00, char_of (length hdr)]"
  using assms by (simp_all add: test_frame_def writeUInt32BE_small)

lemma deserialize_test_frame_eq:
  assumes "length hdr < 256"
  shows "deserialize rt (test_frame hdr body)
         = (case JSON_parse rt (Buffer_toString rt hdr) of
              Inl err \<Rightarrow> Inl err
            | Inr parsed \<Rightarrow>
                (case destructure2 parsed of
                   Inl err \<Rightarrow> Inl err
                 | Inr (header, bodyType) \<Rightarrow>
                     (case deserializeBody rt body bodyType of
                        Inl err \<Rightarrow> Inl err
                      | Inr b \<Rightarrow> Inr (header, b))))"
  unfolding test_frame_parts(1) [OF assms]
  by (rule deserialize_frame [OF test_frame_parts(2) [OF assms]])

lemma deserialize_test_frame:
  assumes "length hdr < 256"
    and "JSON_parse rt (Buffer_toString rt hdr) = Inr (JArray [header, tag])"
    and "deserializeBody rt body tag = Inr b"
  shows "deserialize rt (test_frame hdr body) = Inr (header, b)"
  using assms(2,3) by (simp add: deserialize_test_frame_eq [OF assms(1)])

text \<open>The same under the reference runtime, for a header text in ASCII.\<close>

lemma deserialize_ascii_frame:
  assumes "length hdr < 256" and "ascii hdr"
    and "json_read hdr = Inr (JArray [header, tag])"
    and "deserializeBody json_rt body tag = Inr b"
  shows "deserialize json_rt (test_frame hdr body) = Inr (header, b)"
  using assms(3,4)
  by (intro deserialize_test_frame [OF assms(1)]) (simp_all add: utf8_decode_ascii [OF assms(2)])

lemma serialize_ascii_frame:
  assumes "serializeBody json_rt body = Inr (bodyBuffer, bodyType)"
    and "\<not> circular header"
    and "json_text (JArray [header, JNum (BodyType_tag bodyType)]) = hdr"
    and "ascii hdr" and "length hdr < 256"
  shows "serialize json_rt header body = Inr (test_frame hdr bodyBuffer)"
proof -
  have "JSON_stringify json_rt (JArray [header, JNum (BodyType_tag bodyType)]) = Inr hdr"
    using assms(2,3) by (simp del: json_text.simps)
  then show ?thesis
    using assms(1) test_frame_parts(1) [OF assms(5), of bodyBuffer]
      test_frame_parts(2) [OF assms(5)]
    by (simp add: serialize_def utf8_write_ascii [OF assms(4)] del: json_rt_simps(4))
qed

section \<open>Round trip of the frame codec\<close>

lemma deserializeBody_serializeBody:
  assumes "transmissible rt body"
  shows "\<exists>bodyBuffer. serializeBody rt body = Inr (bodyBuffer, bodyType_of body)
           \<and> deserializeBody rt bodyBuffer (JNum (BodyType_tag (bodyType_of body))) = Inr body"
  using assms
  by (cases body)
     (auto simp: deserializeBody_def well_formed_def json_serializable_def split: sum.splits)

lemma deserialize_serialize:
  assumes hdr: "json_serializable rt (JArray [header, JNum (BodyType_tag (bodyType_of body))])"
    and bdy: "transmissible rt body"
    and len: "fits_prefix rt (JArray [header, JNum (BodyType_tag (bodyType_of body))])"
  shows "\<exists>buf. serialize rt header body = Inr buf \<and> deserialize rt buf = Inr (header, body)"
proof -
  let ?pair = "JArray [header, JNum (BodyType_tag (bodyType_of body))]"
  obtain bb where bb: "serializeBody rt body = Inr (bb, bodyType_of body)"
      "deserializeBody rt bb (JNum (BodyType_tag (bodyType_of body))) = Inr body"
    using deserializeBody_serializeBody [OF bdy] by blast
  obtain js where js: "JSON_stringify rt ?pair = Inr js"
      "JSON_parse rt (Buffer_toString rt (Buffer_from rt js)) = Inr ?pair"
    using hdr by (auto simp: json_serializable_def split: sum.splits)
  have "length (Buffer_from rt js) < 2 ^ 32"
    using len js(1) by (simp add: fits_prefix_def)
  then obtain sz where sz: "writeUInt32BE (length (Buffer_from rt js)) = Inr sz"
    using readUInt32BE_writeUInt32BE by blast
  have "serialize rt header body = Inr (sz @ Buffer_from rt js @ bb)"
    using bb(1) js(1) sz by (simp add: serialize_def)
  moreover have "deserialize rt (sz @ Buffer_from rt js @ bb) = Inr (header, body)"
    using js(2) bb(2) by (simp add: deserialize_frame [OF sz])
  ultimately show ?thesis by blast
qed

text \<open>
  Claim C1, as amended. Let \<open>V\<close> be undefined, a well-formed string, a buffer, or a
  structured value that is JSON-serializable, and let \<open>H\<close> be a header such that the
  array \<open>[H, tag]\<close>, in which the header travels, is JSON-serializable and its text fits
  the 32-bit length prefix (\<open>tag\<close> is the number of the class of \<open>V\<close>). Then
  \<open>serialize\<close> returns a frame and \<open>deserialize\<close> of that frame returns \<open>H\<close> and \<open>V\<close>.
  The body comes back as the same value of the model, so in its original class:
  undefined, string, buffer and structured values are different constructors.
\<close>

theorem serialize_deserialize_roundtrip:
  assumes "json_serializable rt (JArray [H, JNum (BodyType_tag (bodyType_of V))])"
    and "transmissible rt V"
    and "fits_prefix rt (JArray [H, JNum (BodyType_tag (bodyType_of V))])"
  shows "\<exists>buf. serialize rt H V = Inr buf \<and> deserialize rt buf = Inr (H, V)"
  using deserialize_serialize [OF assms] .

lemma example_header_text:
  "json_text (JArray [JArray [JNum 100, JNum 7, JStr ''echo'', JStr ''marco''], JNum 3])
   = ''[[100,7,'' @ [dq] @ ''echo'' @ [dq] @ '','' @ [dq] @ ''marco'' @ [dq] @ ''],3]''"
  by code_simp

lemma example_header_serializable:
  "json_serializable json_rt
     (JArray [JArray [JNum 100, JNum 7, JStr ''echo'', JStr ''marco''], JNum 3])"
  by code_simp

lemma example_body_serializable:
  "json_serializable json_rt
     (JObject [(''a'', JArray [JNum (- 1), JNull, JBool True]), (''b'', JStr ''x'')])"
  by code_simp

theorem serialize_deserialize_roundtrip_witness:
  "json_serializable json_rt
     (JArray [JArray [JNum 100, JNum 7, JStr ''echo'', JStr ''marco''],
              JNum (BodyType_tag (bodyType_of
                (JObject [(''a'', JArray [JNum (- 1), JNull, JBool True]), (''b'', JStr ''x'')])))])
   \<and> transmissible json_rt
        (JObject [(''a'', JArray [JNum (- 1), JNull, JBool True]), (''b'', JStr ''x'')])
   \<and> (\<exists>buf. serialize json_rt (JArray [JNum 100, JNum 7, JStr ''echo'', JStr ''marco''])
                (JObject [(''a'', JArray [JNum (- 1), JNull, JBool True]), (''b'', JStr ''x'')])
              = Inr buf
            \<and> deserialize json_rt buf
              = Inr (JArray [JNum 100, JNum 7, JStr ''echo'', JStr ''marco''],
                     JObject [(''a'', JArray [JNum (- 1), JNull, JBool True]), (''b'', JStr ''x'')]))"
proof -
  let ?H = "JArray [JNum 100, JNum 7, JStr ''echo'', JStr ''marco'']"
  let ?V = "JObject [(''a'', JArray [JNum (- 1), JNull, JBool True]), (''b'', JStr ''x'')]"
  have tag: "BodyType_tag (bodyType_of ?V) = 3"
    by simp
  have h1: "json_serializable json_rt (JArray [?H, JNum (BodyType_tag (bodyType_of ?V))])"
    using example_header_serializable by (simp only: tag)
  have h2: "transmissible json_rt ?V"
    using example_body_serializable by simp
  have h3: "fits_prefix json_rt (JArray [?H, JNum (BodyType_tag (bodyType_of ?V))])"
  proof -
    have c: "\<not> circular (JArray [?H, JNum 3])" by simp
    have "length (utf8_write (json_text (JArray [?H, JNum 3]))) < 2 ^ 32"
      unfolding length_utf8_write example_header_text by simp
    then have "fits_prefix json_rt (JArray [?H, JNum 3])"
      using c by (simp add: fits_prefix_def del: json_text.simps circular.simps)
    then show ?thesis by (simp only: tag)
  qed
  show ?thesis
    using serialize_deserialize_roundtrip [OF h1 h2 h3] h1 h2 by blast
qed

text \<open>
  The claim as it is written, for every string and every header array, fails. The string
  \<^verbatim>\<open>"\ud800"\<close>, a surrogate without its partner, is written as U+FFFD and comes back as
  the string \<^verbatim>\<open>"\ufffd"\<close>. The header \<^verbatim>\<open>[100, undefined]\<close> has the JSON text
  \<^verbatim>\<open>[100,null]\<close> and comes back as \<^verbatim>\<open>[100, null]\<close>.
\<close>

lemma surrogate_header_text: "json_text (JArray [JArray [JNum 100], JNum 1]) = ''[[100],1]''"
  by code_simp

lemma surrogate_header_read: "json_read ''[[100],1]'' = Inr (JArray [JArray [JNum 100], JNum 1])"
  by code_simp

lemma undefined_header_text:
  "json_text (JArray [JArray [JNum 100, JUndefined], JNum 0]) = ''[[100,null],0]''"
  by code_simp

lemma undefined_header_read:
  "json_read ''[[100,null],0]'' = Inr (JArray [JArray [JNum 100, JNull], JNum 0])"
  by code_simp

theorem roundtrip_not_identity_counterexample:
  "(case serialize json_rt (JArray [JNum 100]) (JStr [CHR 0xED, CHR 0xA0, CHR 0x80]) of
      Inl err \<Rightarrow> Inl err
    | Inr buf \<Rightarrow> deserialize json_rt buf)
   = Inr (JArray [JNum 100], JStr [CHR 0xEF, CHR 0xBF, CHR 0xBD])
   \<and> (case serialize json_rt (JArray [JNum 100, JUndefined]) JUndefined of
        Inl err \<Rightarrow> Inl err
      | Inr buf \<Rightarrow> deserialize json_rt buf)
     = Inr (JArray [JNum 100, JNull], JUndefined)"
proof -
  have s1: "serialize json_rt (JArray [JNum 100]) (JStr [CHR 0xED, CHR 0xA0, CHR 0x80])
            = Inr (test_frame ''[[100],1]'' replacement)"
    by (rule serialize_ascii_frame [where bodyType = BT_String])
       (simp_all add: surrogate_header_text del: json_text.simps)
  have d1: "deserialize json_rt (test_frame ''[[100],1]'' replacement)
            = Inr (JArray [JNum 100], JStr [CHR 0xEF, CHR 0xBF, CHR 0xBD])"
    by (rule deserialize_ascii_frame [where tag = "JNum 1"])
       (simp_all add: surrogate_header_read deserializeBody_def utf8_decode_def utf8_lead_def
          replacement_def)
  have s2: "serialize json_rt (JArray [JNum 100, JUndefined]) JUndefined
            = Inr (test_frame ''[[100,null],0]'' [])"
    by (rule serialize_ascii_frame [where bodyType = BT_Undefined])
       (simp_all add: undefined_header_text del: json_text.simps)
  have d2: "deserialize json_rt (test_frame ''[[100,null],0]'' [])
            = Inr (JArray [JNum 100, JNull], JUndefined)"
    by (rule deserialize_ascii_frame [where tag = "JNum 0"])
       (simp_all add: undefined_header_read deserializeBody_def)
  show ?thesis by (simp only: s1 d1 s2 d2 sum.case)
qed

section \<open>The header JSON of a frame\<close>

lemma serialize_headerBuffer:
  assumes "serialize rt header body = Inr buf"
  shows "\<exists>text. JSON_stringify rt (JArray [header, JNum (BodyType_tag (bodyType_of body))]) = Inr text
           \<and> headerBuffer_of buf = Inr (Buffer_from rt text)"
proof -
  from assms obtain bb bt js sz where
    sb: "serializeBody rt body = Inr (bb, bt)"
    and js: "JSON_stringify rt (JArray [header, JNum (BodyType_tag bt)]) = Inr js"
    and sz: "writeUInt32BE (length (Buffer_from rt js)) = Inr sz"
    and buf: "buf = sz @ Buffer_from rt js @ bb"
    by (auto simp: serialize_def Let_def split: sum.splits)
  have bt: "bt = bodyType_of body" by (rule serializeBody_type [OF sb])
  from writeUInt32BE_Inr [OF sz, of "Buffer_from rt js @ bb"] have
    "headerBuffer_of buf = Inr (Buffer_from rt js)"
    by (simp add: headerBuffer_of_def buf)
  with js bt show ?thesis by blast
qed

text \<open>
  Claim C2, as amended. \<^verbatim>\<open>serialize\<close> writes \<^verbatim>\<open>JSON.stringify([header, bodyType])\<close>:
  the header JSON of every frame is the two-element array \<open>[H, tag]\<close>, whose first element
  is the header array given to \<open>serialize\<close> and whose last element is the body-type tag. A
  Promise request has the header JSON \<open>[[100, id, channelName, name], t]\<close> and the
  Initialize response \<open>[[200], 0]\<close>.
\<close>

theorem header_json_is_pair:
  "(serialize rt header body = Inr buf \<longrightarrow>
      (\<exists>text. JSON_stringify rt (JArray [header, JNum (BodyType_tag (bodyType_of body))]) = Inr text
         \<and> headerBuffer_of buf = Inr (Buffer_from rt text)))
   \<and> (sendRequest_buffer rt (Promise rid channelName name arg) = Inr buf \<longrightarrow>
      (\<exists>text. JSON_stringify rt
                (JArray [JArray [JNum 100, rid, channelName, name],
                         JNum (BodyType_tag (bodyType_of arg))]) = Inr text
         \<and> headerBuffer_of buf = Inr (Buffer_from rt text)))
   \<and> (sendResponse_buffer rt Initialize = Inr buf \<longrightarrow>
      (\<exists>text. JSON_stringify rt (JArray [JArray [JNum 200], JNum 0]) = Inr text
         \<and> headerBuffer_of buf = Inr (Buffer_from rt text)))"
  using serialize_headerBuffer [of rt header body buf]
    serialize_headerBuffer [of rt "JArray [JNum 100, rid, channelName, name]" arg buf]
    serialize_headerBuffer [of rt "JArray [JNum 200]" JUndefined buf]
  by simp

lemma json_text_init: "json_text (JArray [JArray [JNum 200], JNum 0]) = ''[[200],0]''"
  by code_simp

lemma json_text_flat: "json_text (JArray [JNum 200, JNum 0]) = ''[200,0]''"
  by code_simp

lemma json_read_init: "json_read ''[[200],0]'' = Inr (JArray [JArray [JNum 200], JNum 0])"
  by code_simp

lemma initialize_frame:
  "sendResponse_buffer json_rt Initialize
   = Inr ([CHR 0x00, CHR 0x00, CHR 0x00, CHR 0x09] @ ''[[200],0]'')"
proof -
  have s: "serialize json_rt (JArray [JNum 200]) JUndefined = Inr (test_frame ''[[200],0]'' [])"
    by (rule serialize_ascii_frame [where bodyType = BT_Undefined])
       (simp_all add: json_text_init del: json_text.simps)
  have len: "length ''[[200],0]'' = 9" by simp
  have "char_of (9::nat) = CHR 0x09" by (simp add: char_of_eq_iff)
  then have "test_frame ''[[200],0]'' [] = [CHR 0x00, CHR 0x00, CHR 0x00, CHR 0x09] @ ''[[200],0]''"
    unfolding test_frame_def len by simp
  with s show ?thesis by simp
qed

theorem header_json_is_pair_witness:
  "sendResponse_buffer json_rt Initialize
     = Inr ([CHR 0x00, CHR 0x00, CHR 0x00, CHR 0x09] @ ''[[200],0]'')
   \<and> headerBuffer_of ([CHR 0x00, CHR 0x00, CHR 0x00, CHR 0x09] @ ''[[200],0]'')
     = Inr (Buffer_from json_rt ''[[200],0]'')
   \<and> JSON_stringify json_rt (JArray [JArray [JNum 200], JNum 0]) = Inr ''[[200],0]''"
proof -
  have js: "JSON_stringify json_rt (JArray [JArray [JNum 200], JNum 0]) = Inr ''[[200],0]''"
    using json_text_init by (simp del: json_text.simps)
  from header_json_is_pair [of json_rt JNull JNull
      "[CHR 0x00, CHR 0x00, CHR 0x00, CHR 0x09] @ ''[[200],0]''" JNull JNull JNull JNull]
    initialize_frame
  have "\<exists>text. JSON_stringify json_rt (JArray [JArray [JNum 200], JNum 0]) = Inr text
          \<and> headerBuffer_of ([CHR 0x00, CHR 0x00, CHR 0x00, CHR 0x09] @ ''[[200],0]'')
            = Inr (Buffer_from json_rt text)"
    by blast
  with js initialize_frame show ?thesis by auto
qed

text \<open>
  The claim as the specification states it (a flat array, \<open>[200, 0]\<close> for Initialize)
  fails: under the reference runtime the header JSON of the Initialize frame is the text
  \<open>[[200],0]\<close>, which parses to an array whose first element is itself an array, while
  the flat array \<open>[200, 0]\<close> has the text \<open>[200,0]\<close>.
\<close>

theorem header_json_flat_counterexample:
  "(case sendResponse_buffer json_rt Initialize of
      Inl err \<Rightarrow> Inl err
    | Inr buf \<Rightarrow> headerBuffer_of buf) = Inr ''[[200],0]''
   \<and> JSON_stringify json_rt (JArray [JNum 200, JNum 0]) = Inr ''[200,0]''
   \<and> JSON_parse json_rt ''[[200],0]'' = Inr (JArray [JArray [JNum 200], JNum 0])"
proof -
  have "headerBuffer_of ([CHR 0x00, CHR 0x00, CHR 0x00, CHR 0x09] @ ''[[200],0]'') = Inr ''[[200],0]''"
    by (simp add: headerBuffer_of_def)
  moreover have "JSON_stringify json_rt (JArray [JNum 200, JNum 0]) = Inr ''[200,0]''"
    using json_text_flat by (simp del: json_text.simps)
  ultimately show ?thesis
    using initialize_frame json_read_init by simp
qed

section \<open>Channels and promises\<close>

text \<open>
  \<^verbatim>\<open>TPromise\<close> (\<^verbatim>\<open>vs/base/common/winjs.base\<close>) is not among the source files. The model
  keeps what the engine relies on, as its uses in \<^verbatim>\<open>ipc.ts\<close> and the tests of
  \<^verbatim>\<open>ipc.test.ts\<close> show it:
  \<^item> a promise is pending or settled, and it settles once: later completions are ignored;
  \<^item> an exception thrown by the initialiser of \<^verbatim>\<open>new TPromise(init, cancel)\<close> rejects the
    promise; an exception thrown by a callback of \<^verbatim>\<open>then\<close> or by the cancel function is
    caught by the promise;
  \<^item> the callbacks given to \<^verbatim>\<open>then\<close> run when the promise settles, at once when it is
    settled already (\<^verbatim>\<open>TPromise.wrapError(err).then(..)\<close>);
  \<^item> \<^verbatim>\<open>p.then(ok, err).cancel()\<close> on a pending \<open>p\<close> cancels \<open>p\<close>, which settles \<open>p\<close> at
    once and runs the callbacks: the test \<^verbatim>\<open>cancel call with TPromise.cancel (sync)\<close>
    builds \<^verbatim>\<open>call.then(fail, err => assert(err.message === 'Canceled'))\<close>, cancels it and
    returns it, so the error callback receives the error named Canceled. A promise made
    with a cancel function settles with what that function passes on instead.
  A pending promise therefore carries the settlement it takes when it is cancelled.
\<close>

datatype settlement = Resolved any | Rejected thrown

datatype TPromise = Settled settlement | Pending settlement

definition canceled :: thrown where
  "canceled = ErrorInstance (NewError (JStr ''Canceled'') (JStr ''Canceled'') (JStr ''Error: Canceled''))"

text \<open>
  \<^verbatim>\<open>IChannel\<close>: \<^verbatim>\<open>call\<close> throws or returns a promise, \<^verbatim>\<open>listen\<close> throws or returns an
  event. When a returned promise settles and when an event fires is up to the channel's
  implementation: these are steps of the environment.
\<close>

datatype call_result = CallThrows thrown | CallReturns TPromise

datatype listen_result = ListenThrows thrown | ListenReturns

record IChannel =
  call :: "any \<Rightarrow> any \<Rightarrow> call_result"
  listen :: "any \<Rightarrow> any \<Rightarrow> listen_result"

section \<open>ChannelServer\<close>

text \<open>
  \<^verbatim>\<open>activeRequests\<close> maps a property key to a disposable: cancelling the
  \<^verbatim>\<open>requestPromise\<close> of \<^verbatim>\<open>onPromise\<close>, or removing the listener of \<^verbatim>\<open>onEventListen\<close>.
  Each \<^verbatim>\<open>requestPromise\<close> closes over its \<^verbatim>\<open>id\<close>; it is pending until its callbacks
  have run. \<^verbatim>\<open>sentResponses\<close> lists the arguments of \<^verbatim>\<open>sendResponse\<close> in order (the
  bytes handed to \<^verbatim>\<open>protocol.send\<close> are \<open>sendResponse_buffer\<close> of each; an error of
  \<^verbatim>\<open>protocol.send\<close> is swallowed by \<^verbatim>\<open>sendRawMessage\<close>).
\<close>

datatype disposable = CancelRequest nat | RemoveListener nat

datatype request_promise = RequestPending any settlement | RequestDone

record subscription =
  sub_id :: any
  sub_active :: bool

record ChannelServer =
  channels :: "string \<rightharpoonup> IChannel"
  activeRequests :: "string \<rightharpoonup> disposable"
  requestPromises :: "request_promise list"
  subscriptions :: "subscription list"
  sentResponses :: "IRawResponse list"

definition sendResponse :: "ChannelServer \<Rightarrow> IRawResponse \<Rightarrow> ChannelServer" where
  "sendResponse s response = s\<lparr>sentResponses := sentResponses s @ [response]\<rparr>"

text \<open>The constructor subscribes to the protocol and sends Initialize.\<close>

definition ChannelServer_new :: ChannelServer where
  "ChannelServer_new =
     sendResponse \<lparr>channels = Map.empty, activeRequests = Map.empty, requestPromises = [],
                   subscriptions = [], sentResponses = []\<rparr> Initialize"

definition registerChannel :: "ChannelServer \<Rightarrow> string \<Rightarrow> IChannel \<Rightarrow> ChannelServer" where
  "registerChannel s channelName channel = s\<lparr>channels := (channels s)(channelName \<mapsto> channel)\<rparr>"

definition delete_activeRequest :: "ChannelServer \<Rightarrow> any \<Rightarrow> ChannelServer" where
  "delete_activeRequest s rid = s\<lparr>activeRequests := (activeRequests s)(to_string rid := None)\<rparr>"

fun split_on :: "char \<Rightarrow> string \<Rightarrow> string list" where
  "split_on c [] = [[]]"
| "split_on c (x # xs) =
     (if x = c then [] # split_on c xs
      else (case split_on c xs of [] \<Rightarrow> [[x]] | l # ls \<Rightarrow> (x # l) # ls))"

text \<open>
  \<^verbatim>\<open>data.stack ? (data.stack.split ? data.stack.split('\n') : data.stack) : void 0\<close>.
  Only strings have a \<^verbatim>\<open>split\<close> method; an object with a truthy \<^verbatim>\<open>split\<close> property
  that is no function makes the call throw.
\<close>

definition stack_field :: "any \<Rightarrow> thrown + any" where
  "stack_field stack =
     (if truthy stack then
        (case stack of
           JStr s \<Rightarrow> Inr (JArray (map JStr (split_on (CHR 0x0A) s)))
         | JObject kvs \<Rightarrow>
             (case map_of kvs ''split'' of
                None \<Rightarrow> Inr stack
              | Some f \<Rightarrow>
                  if truthy f then Inl (TypeError ''data.stack.split is not a function'')
                  else Inr stack)
         | _ \<Rightarrow> Inr stack)
      else Inr JUndefined)"

text \<open>
  The two callbacks of \<^verbatim>\<open>promise.then(..)\<close> in \<^verbatim>\<open>onPromise\<close>. An exception inside
  a callback is caught by the promise: nothing is sent and the entry stays.
\<close>

fun requestPromise_callbacks :: "ChannelServer \<Rightarrow> any \<Rightarrow> settlement \<Rightarrow> ChannelServer" where
  "requestPromise_callbacks s rid (Resolved data) =
     delete_activeRequest (sendResponse s (PromiseSuccess rid data)) rid"
| "requestPromise_callbacks s rid (Rejected (ErrorInstance data)) =
     (case stack_field (err_stack data) of
        Inl err \<Rightarrow> s
      | Inr stack \<Rightarrow>
          delete_activeRequest
            (sendResponse s
               (PromiseError rid
                  (JObject [(''message'', err_message data), (''name'', err_name data),
                            (''stack'', stack)])))
            rid)"
| "requestPromise_callbacks s rid (Rejected (OtherValue data)) =
     delete_activeRequest (sendResponse s (PromiseErrorObj rid data)) rid"

definition call_unknown_channel :: thrown where
  "call_unknown_channel = TypeError (''Cannot read property '' @ quote ''call'' @ '' of undefined'')"

definition listen_unknown_channel :: thrown where
  "listen_unknown_channel =
     TypeError (''Cannot read property '' @ quote ''listen'' @ '' of undefined'')"

definition onPromise :: "ChannelServer \<Rightarrow> any \<Rightarrow> any \<Rightarrow> any \<Rightarrow> any \<Rightarrow> ChannelServer" where
  "onPromise s rid channelName name arg =
     (let promise =
            (case channels s (to_string channelName) of
               None \<Rightarrow> Settled (Rejected call_unknown_channel)
             | Some channel \<Rightarrow>
                 (case call channel name arg of
                    CallThrows err \<Rightarrow> Settled (Rejected err)
                  | CallReturns p \<Rightarrow> p));
          s1 = (case promise of Settled st \<Rightarrow> requestPromise_callbacks s rid st | Pending c \<Rightarrow> s);
          requestPromise =
            (case promise of Settled st \<Rightarrow> RequestDone | Pending c \<Rightarrow> RequestPending rid c)
      in s1\<lparr>requestPromises := requestPromises s1 @ [requestPromise],
             activeRequests :=
               (activeRequests s1)(to_string rid \<mapsto> CancelRequest (length (requestPromises s1)))\<rparr>)"

definition onEventListen ::
  "ChannelServer \<Rightarrow> any \<Rightarrow> any \<Rightarrow> any \<Rightarrow> any \<Rightarrow> thrown option \<times> ChannelServer" where
  "onEventListen s rid channelName name arg =
     (case channels s (to_string channelName) of
        None \<Rightarrow> (Some listen_unknown_channel, s)
      | Some channel \<Rightarrow>
          (case listen channel name arg of
             ListenThrows err \<Rightarrow> (Some err, s)
           | ListenReturns \<Rightarrow>
               (None,
                s\<lparr>subscriptions := subscriptions s @ [\<lparr>sub_id = rid, sub_active = True\<rparr>],
                  activeRequests :=
                    (activeRequests s)(to_string rid \<mapsto> RemoveListener (length (subscriptions s)))\<rparr>)))"

text \<open>
  \<^verbatim>\<open>disposable.dispose()\<close>: \<^verbatim>\<open>requestPromise.cancel()\<close> settles a pending call with its
  cancel settlement, which runs the callbacks of \<^verbatim>\<open>onPromise\<close>; a settled promise ignores
  the cancel. Disposing a listener stops its events.
\<close>

fun dispose :: "ChannelServer \<Rightarrow> disposable \<Rightarrow> ChannelServer" where
  "dispose s (CancelRequest n) =
     (if n < length (requestPromises s) then
        (case requestPromises s ! n of
           RequestPending rid c \<Rightarrow>
             requestPromise_callbacks (s\<lparr>requestPromises := (requestPromises s)[n := RequestDone]\<rparr>)
               rid c
         | RequestDone \<Rightarrow> s)
      else s)"
| "dispose s (RemoveListener n) =
     (if n < length (subscriptions s) then
        s\<lparr>subscriptions := (subscriptions s)[n := (subscriptions s ! n)\<lparr>sub_active := False\<rparr>]\<rparr>
      else s)"

definition disposeActiveRequest :: "ChannelServer \<Rightarrow> any \<Rightarrow> ChannelServer" where
  "disposeActiveRequest s rid =
     (case activeRequests s (to_string rid) of
        None \<Rightarrow> s
      | Some disposable \<Rightarrow> delete_activeRequest (dispose s disposable) rid)"

fun onRequest :: "ChannelServer \<Rightarrow> IRawRequest \<Rightarrow> thrown option \<times> ChannelServer" where
  "onRequest s (Promise rid channelName name arg) = (None, onPromise s rid channelName name arg)"
| "onRequest s (EventListen rid channelName name arg) = onEventListen s rid channelName name arg"
| "onRequest s (PromiseCancel rid) = (None, disposeActiveRequest s rid)"
| "onRequest s (EventDispose rid) = (None, disposeActiveRequest s rid)"

text \<open>\<^verbatim>\<open>header[i]\<close> once \<^verbatim>\<open>header[0]\<close> has been read without an exception.\<close>

definition at :: "any \<Rightarrow> nat \<Rightarrow> any" where
  "at header i = (case get_index header i of Inl err \<Rightarrow> JUndefined | Inr v \<Rightarrow> v)"

text \<open>
  \<^verbatim>\<open>ChannelServer.onRawMessage\<close>. The first component of the result is the exception
  that leaves the handler, if any.
\<close>

definition server_onRawMessage ::
  "runtime \<Rightarrow> ChannelServer \<Rightarrow> buffer \<Rightarrow> thrown option \<times> ChannelServer" where
  "server_onRawMessage rt s message =
     (case deserialize rt message of
        Inl err \<Rightarrow> (Some err, s)
      | Inr (header, body) \<Rightarrow>
          (case get_index header 0 of
             Inl err \<Rightarrow> (Some err, s)
           | Inr type \<Rightarrow>
               if type = JNum 100 then
                 onRequest s (Promise (at header 1) (at header 2) (at header 3) body)
               else if type = JNum 102 then
                 onRequest s (EventListen (at header 1) (at header 2) (at header 3) body)
               else if type = JNum 101 then onRequest s (PromiseCancel (at header 1))
               else if type = JNum 103 then onRequest s (EventDispose (at header 1))
               else (None, s)))"

text \<open>
  The steps of a channel server between its construction and its disposal: the protocol
  delivers a message, the promise of a call settles, an event fires, a channel is
  registered. The protocol and its emitter are not among the source files. A step for a
  message is one call of the listener; what the call throws goes to the emitter and is no
  part of the state of the engine, and whether the protocol delivers another message
  after that is up to the protocol.
\<close>

datatype server_event =
    Message buffer
  | Settles nat settlement
  | Fires nat any
  | Register string IChannel

fun server_step :: "runtime \<Rightarrow> ChannelServer \<Rightarrow> server_event \<Rightarrow> ChannelServer" where
  "server_step rt s (Message message) = snd (server_onRawMessage rt s message)"
| "server_step rt s (Settles n st) =
     (if n < length (requestPromises s) then
        (case requestPromises s ! n of
           RequestPending rid c \<Rightarrow>
             requestPromise_callbacks (s\<lparr>requestPromises := (requestPromises s)[n := RequestDone]\<rparr>)
               rid st
         | RequestDone \<Rightarrow> s)
      else s)"
| "server_step rt s (Fires n data) =
     (if n < length (subscriptions s) \<and> sub_active (subscriptions s ! n)
      then sendResponse s (EventFire (sub_id (subscriptions s ! n)) data)
      else s)"
| "server_step rt s (Register channelName channel) = registerChannel s channelName channel"

definition server_run :: "runtime \<Rightarrow> ChannelServer \<Rightarrow> server_event list \<Rightarrow> ChannelServer" where
  "server_run rt s evs = foldl (server_step rt) s evs"

subsection \<open>What the channel server sends\<close>

text \<open>The responses the callbacks of a request promise send.\<close>

fun settlement_responses :: "any \<Rightarrow> settlement \<Rightarrow> IRawResponse list" where
  "settlement_responses rid (Resolved data) = [PromiseSuccess rid data]"
| "settlement_responses rid (Rejected (ErrorInstance data)) =
     (case stack_field (err_stack data) of
        Inl err \<Rightarrow> []
      | Inr stack \<Rightarrow>
          [PromiseError rid
             (JObject [(''message'', err_message data), (''name'', err_name data),
                       (''stack'', stack)])])"
| "settlement_responses rid (Rejected (OtherValue data)) = [PromiseErrorObj rid data]"

fun is_terminal_for :: "any \<Rightarrow> IRawResponse \<Rightarrow> bool" where
  "is_terminal_for rid (PromiseSuccess i data) = (i = rid)"
| "is_terminal_for rid (PromiseError i data) = (i = rid)"
| "is_terminal_for rid (PromiseErrorObj i data) = (i = rid)"
| "is_terminal_for rid r = False"

lemma sentResponses_sendResponse [simp]:
  "sentResponses (sendResponse s r) = sentResponses s @ [r]"
  by (simp add: sendResponse_def)

lemma sentResponses_delete_activeRequest [simp]:
  "sentResponses (delete_activeRequest s rid) = sentResponses s"
  by (simp add: delete_activeRequest_def)

lemma sentResponses_callbacks:
  "sentResponses (requestPromise_callbacks s rid st) = sentResponses s @ settlement_responses rid st"
  by (cases "(s, rid, st)" rule: requestPromise_callbacks.cases) (auto split: sum.splits)

lemma settlement_responses_not_Initialize: "Initialize \<notin> set (settlement_responses rid st)"
  by (cases "(rid, st)" rule: settlement_responses.cases) (auto split: sum.splits)

lemma sentResponses_onPromise:
  "\<exists>new. sentResponses (onPromise s rid channelName name arg) = sentResponses s @ new
         \<and> Initialize \<notin> set new"
  by (auto simp: onPromise_def Let_def sentResponses_callbacks settlement_responses_not_Initialize
           split: option.splits call_result.splits TPromise.splits)

lemma sentResponses_onEventListen:
  "sentResponses (snd (onEventListen s rid channelName name arg)) = sentResponses s"
  by (auto simp: onEventListen_def split: option.splits listen_result.splits)

lemma sentResponses_dispose:
  "\<exists>new. sentResponses (dispose s d) = sentResponses s @ new \<and> Initialize \<notin> set new"
  by (cases d)
     (auto simp: sentResponses_callbacks settlement_responses_not_Initialize
           split: request_promise.splits)

lemma sentResponses_disposeActiveRequest:
  "\<exists>new. sentResponses (disposeActiveRequest s rid) = sentResponses s @ new \<and> Initialize \<notin> set new"
  using sentResponses_dispose by (auto simp: disposeActiveRequest_def split: option.splits)

lemma sentResponses_onRequest:
  "\<exists>new. sentResponses (snd (onRequest s request)) = sentResponses s @ new \<and> Initialize \<notin> set new"
  using sentResponses_onPromise sentResponses_disposeActiveRequest
  by (cases request) (auto simp: sentResponses_onEventListen)

lemma sentResponses_server_onRawMessage:
  "\<exists>new. sentResponses (snd (server_onRawMessage rt s message)) = sentResponses s @ new
         \<and> Initialize \<notin> set new"
  using sentResponses_onRequest [of s]
  by (auto simp: server_onRawMessage_def simp del: onRequest.simps split: sum.splits prod.splits)

lemma sentResponses_server_step:
  "\<exists>new. sentResponses (server_step rt s ev) = sentResponses s @ new \<and> Initialize \<notin> set new"
proof (cases ev)
  case (Message message)
  then show ?thesis using sentResponses_server_onRawMessage by simp
next
  case (Settles n st)
  then show ?thesis
    by (auto simp: sentResponses_callbacks settlement_responses_not_Initialize
             split: request_promise.splits)
next
  case (Fires n data)
  then show ?thesis by auto
next
  case (Register channelName channel)
  then show ?thesis by (simp add: registerChannel_def)
qed

lemma sentResponses_server_run:
  "\<exists>new. sentResponses (server_run rt s evs) = sentResponses s @ new \<and> Initialize \<notin> set new"
proof (induction evs arbitrary: s)
  case Nil
  then show ?case by (simp add: server_run_def)
next
  case (Cons ev evs)
  obtain new1 where n1: "sentResponses (server_step rt s ev) = sentResponses s @ new1"
      "Initialize \<notin> set new1"
    using sentResponses_server_step by blast
  obtain new2 where n2: "sentResponses (server_run rt (server_step rt s ev) evs)
        = sentResponses (server_step rt s ev) @ new2" "Initialize \<notin> set new2"
    using Cons.IH by blast
  have "server_run rt s (ev # evs) = server_run rt (server_step rt s ev) evs"
    by (simp add: server_run_def)
  with n1 n2 show ?case by auto
qed

text \<open>
  Claim C3. Whatever happens on a connection after the channel server has been
  constructed, the responses it has sent are one Initialize followed by responses that are
  not Initialize: exactly one Initialize, before any other response frame.
\<close>

theorem initialize_once_and_first:
  "\<exists>rest. sentResponses (server_run rt ChannelServer_new evs) = Initialize # rest
          \<and> Initialize \<notin> set rest"
proof -
  have "sentResponses ChannelServer_new = [Initialize]"
    by (simp add: ChannelServer_new_def)
  with sentResponses_server_run [of rt ChannelServer_new evs] show ?thesis by auto
qed

subsection \<open>Requests for a channel that is not registered\<close>

lemma settlement_responses_TypeError:
  "settlement_responses rid (Rejected (TypeError msg))
   = [PromiseError rid
        (JObject [(''message'', JStr msg), (''name'', JStr ''TypeError''),
                  (''stack'', JArray (map JStr (split_on (CHR 0x0A) (''TypeError: '' @ msg))))])]"
  by (simp add: TypeError_def stack_field_def del: split_on.simps)

lemma onPromise_unknown_channel:
  assumes "channels s (to_string channelName) = None"
  shows "\<exists>data. sentResponses (onPromise s rid channelName name arg)
               = sentResponses s @ [PromiseError rid data]"
proof -
  obtain data where "settlement_responses rid (Rejected call_unknown_channel) = [PromiseError rid data]"
    unfolding call_unknown_channel_def using settlement_responses_TypeError by blast
  then show ?thesis
    using assms by (simp add: onPromise_def Let_def sentResponses_callbacks)
qed

text \<open>
  Claim C10. A frame that decodes to an EventListen request (type 102) for a channel name
  that is not registered makes the handler throw (\<^verbatim>\<open>channel.listen\<close> on \<^verbatim>\<open>undefined\<close>,
  with no guard around it) and leaves the server as it was: no response is sent and no
  entry is added to \<^verbatim>\<open>activeRequests\<close>. The same frame with type 100 (Promise) throws
  nothing and is answered with one PromiseError response for its id.
\<close>

theorem unknown_channel_listen_throws:
  assumes "deserialize rt message = Inr (header, body)"
    and "channels s (to_string (at header 2)) = None"
  shows "(get_index header 0 = Inr (JNum 102) \<longrightarrow>
            server_onRawMessage rt s message = (Some listen_unknown_channel, s))
       \<and> (get_index header 0 = Inr (JNum 100) \<longrightarrow>
            fst (server_onRawMessage rt s message) = None
          \<and> (\<exists>data. sentResponses (snd (server_onRawMessage rt s message))
                     = sentResponses s @ [PromiseError (at header 1) data]))"
  using assms onPromise_unknown_channel [OF assms(2), of "at header 1" "at header 3" body]
  by (auto simp: server_onRawMessage_def onEventListen_def)

section \<open>Example frames\<close>

definition promise_frame :: buffer where
  "promise_frame =
     test_frame (''[[100,0,'' @ [dq] @ ''c'' @ [dq] @ '','' @ [dq] @ ''n'' @ [dq] @ ''],0]'') []"

definition listen_frame :: buffer where
  "listen_frame =
     test_frame (''[[102,0,'' @ [dq] @ ''c'' @ [dq] @ '','' @ [dq] @ ''n'' @ [dq] @ ''],0]'') []"


lemma read_promise_header:
  "json_read (''[[100,0,'' @ [dq] @ ''c'' @ [dq] @ '','' @ [dq] @ ''n'' @ [dq] @ ''],0]'')
   = Inr (JArray [JArray [JNum 100, JNum 0, JStr ''c'', JStr ''n''], JNum 0])"
  by code_simp

lemma read_listen_header:
  "json_read (''[[102,0,'' @ [dq] @ ''c'' @ [dq] @ '','' @ [dq] @ ''n'' @ [dq] @ ''],0]'')
   = Inr (JArray [JArray [JNum 102, JNum 0, JStr ''c'', JStr ''n''], JNum 0])"
  by code_simp


lemma deserialize_promise_frame:
  "deserialize json_rt promise_frame
   = Inr (JArray [JNum 100, JNum 0, JStr ''c'', JStr ''n''], JUndefined)"
  unfolding promise_frame_def
  by (rule deserialize_ascii_frame [where tag = "JNum 0"])
     (simp_all add: dq_def read_promise_header [simplified dq_def, simplified] deserializeBody_def)

lemma deserialize_listen_frame:
  "deserialize json_rt listen_frame
   = Inr (JArray [JNum 102, JNum 0, JStr ''c'', JStr ''n''], JUndefined)"
  unfolding listen_frame_def
  by (rule deserialize_ascii_frame [where tag = "JNum 0"])
     (simp_all add: dq_def read_listen_header [simplified dq_def, simplified] deserializeBody_def)


lemma to_string_0: "to_string (JNum 0) = ''0''"
  by code_simp

theorem unknown_channel_listen_throws_witness:
  "deserialize json_rt listen_frame
     = Inr (JArray [JNum 102, JNum 0, JStr ''c'', JStr ''n''], JUndefined)
   \<and> deserialize json_rt promise_frame
     = Inr (JArray [JNum 100, JNum 0, JStr ''c'', JStr ''n''], JUndefined)
   \<and> channels ChannelServer_new ''c'' = None
   \<and> server_onRawMessage json_rt ChannelServer_new listen_frame
     = (Some listen_unknown_channel, ChannelServer_new)
   \<and> fst (server_onRawMessage json_rt ChannelServer_new promise_frame) = None
   \<and> (\<exists>data. sentResponses (snd (server_onRawMessage json_rt ChannelServer_new promise_frame))
              = [Initialize, PromiseError (JNum 0) data])"
proof -
  have ch: "channels ChannelServer_new (to_string (at (JArray [JNum 102, JNum 0, JStr ''c'', JStr ''n'']) 2)) = None"
    by (simp add: ChannelServer_new_def sendResponse_def at_def)
  have ch': "channels ChannelServer_new (to_string (at (JArray [JNum 100, JNum 0, JStr ''c'', JStr ''n'']) 2)) = None"
    by (simp add: ChannelServer_new_def sendResponse_def at_def)
  have sent: "sentResponses ChannelServer_new = [Initialize]"
    by (simp add: ChannelServer_new_def)
  show ?thesis
    using unknown_channel_listen_throws [OF deserialize_listen_frame ch]
      unknown_channel_listen_throws [OF deserialize_promise_frame ch']
      deserialize_listen_frame deserialize_promise_frame ch sent
    by (simp add: at_def)
qed

subsection \<open>Cancelling a call\<close>



definition silent_for :: "any \<Rightarrow> IRawResponse list \<Rightarrow> bool" where
  "silent_for rid new = (\<forall>r \<in> set new. \<not> is_terminal_for rid r)"

lemma silent_for_simps [simp]:
  "silent_for rid []"
  "silent_for rid (xs @ ys) = (silent_for rid xs \<and> silent_for rid ys)"
  by (auto simp: silent_for_def)


lemma requestPromises_callbacks [simp]:
  "requestPromises (requestPromise_callbacks s rid st) = requestPromises s"
  by (cases "(s, rid, st)" rule: requestPromise_callbacks.cases)
     (auto simp: sendResponse_def delete_activeRequest_def split: sum.splits)













text \<open>
  An instance: a channel \<open>c\<close> whose calls never complete (the \<^verbatim>\<open>neverComplete\<close> service
  of the tests, \<^verbatim>\<open>new TPromise(_ => { })\<close>), one Promise request with id 0, then its
  PromiseCancel.
\<close>

definition never_channel :: IChannel where
  "never_channel =
     \<lparr>call = (\<lambda>command arg. CallReturns (Pending (Rejected canceled))),
      listen = (\<lambda>event arg. ListenReturns)\<rparr>"




lemma Number_toString_0: "Number_toString 0 = ''0''"
  by code_simp







section \<open>ChannelClient\<close>

text \<open>
  The client keeps, next to the fields of the class, the promises it has returned to its
  callers (\<open>futures\<close>, by request id), the emitters of \<^verbatim>\<open>requestEvent\<close> (\<open>emitters\<close>),
  the emitters whose \<^verbatim>\<open>whenInitialized()\<close> promise is waiting for
  \<^verbatim>\<open>onDidInitialize\<close> (\<open>initWaiters\<close>, in the order they subscribed), the events handed
  to subscribers (\<open>delivered\<close>), the arguments of \<^verbatim>\<open>sendRequest\<close> in order
  (\<open>sentRequests\<close>) and the buffers handed to \<^verbatim>\<open>protocol.send\<close> in order
  (\<open>sentBuffers\<close>).

  A call made through \<^verbatim>\<open>bufferRequest\<close> has two promises, the one returned to the caller
  and, once flushed, \<^verbatim>\<open>flushedRequest = this.doRequest(request).then(c, e)\<close>, which
  passes the settlement of the inner promise on at once: one state per call is kept,
  with the flags \<open>fut_buffered\<close> and \<open>fut_flushed\<close> (\<^verbatim>\<open>flushedRequest\<close> is set).
\<close>

datatype State = Uninitialized | Idle

record IRequest =
  raw :: IRawRequest
  flush :: bool

datatype IHandler = PromiseHandler any | EventHandler any

datatype future_state = FPending | FResolved any | FRejected thrown

record call_future =
  fut_state :: future_state
  fut_buffered :: bool
  fut_flushed :: bool

record emitter =
  em_raw :: IRawRequest
  em_listeners :: nat
  em_waiting :: bool

record ChannelClient =
  state :: State
  bufferedRequests :: "IRequest list option"
  handlers :: "string \<rightharpoonup> IHandler"
  lastRequestId :: nat
  futures :: "any \<rightharpoonup> call_future"
  emitters :: "any \<rightharpoonup> emitter"
  initWaiters :: "any list"
  delivered :: "(any \<times> any) list"
  sentRequests :: "IRawRequest list"
  sentBuffers :: "buffer list"

definition ChannelClient_new :: ChannelClient where
  "ChannelClient_new =
     \<lparr>state = Uninitialized, bufferedRequests = Some [], handlers = Map.empty, lastRequestId = 0,
      futures = Map.empty, emitters = Map.empty, initWaiters = [], delivered = [],
      sentRequests = [], sentBuffers = []\<rparr>"

fun request_id :: "IRawRequest \<Rightarrow> any" where
  "request_id (Promise rid channelName name arg) = rid"
| "request_id (PromiseCancel rid) = rid"
| "request_id (EventListen rid channelName name arg) = rid"
| "request_id (EventDispose rid) = rid"

text \<open>
  \<^verbatim>\<open>sendRequest\<close> serializes the request and hands the buffer to \<^verbatim>\<open>sendRawMessage\<close>,
  which swallows what \<^verbatim>\<open>protocol.send\<close> throws. When \<^verbatim>\<open>serialize\<close> throws, nothing is
  handed over and the exception leaves \<^verbatim>\<open>sendRequest\<close> (the first component).
\<close>

definition sendRequest ::
  "runtime \<Rightarrow> ChannelClient \<Rightarrow> IRawRequest \<Rightarrow> thrown option \<times> ChannelClient" where
  "sendRequest rt c request =
     (let c1 = c\<lparr>sentRequests := sentRequests c @ [request]\<rparr>
      in case sendRequest_buffer rt request of
           Inl err \<Rightarrow> (Some err, c1)
         | Inr buffer \<Rightarrow> (None, c1\<lparr>sentBuffers := sentBuffers c1 @ [buffer]\<rparr>))"

text \<open>
  \<^verbatim>\<open>doRequest\<close>: the promise's initialiser registers the handler and sends the request.
  The first component is the exception of the initialiser, if any: the promise that
  \<^verbatim>\<open>doRequest\<close> returns is then rejected with it, and is pending otherwise.
\<close>

definition doRequest ::
  "runtime \<Rightarrow> ChannelClient \<Rightarrow> IRequest \<Rightarrow> thrown option \<times> ChannelClient" where
  "doRequest rt c request =
     sendRequest rt
       (c\<lparr>handlers := (handlers c)(to_string (request_id (raw request))
                                     \<mapsto> PromiseHandler (request_id (raw request)))\<rparr>)
       (raw request)"

definition initial_state :: "thrown option \<Rightarrow> future_state" where
  "initial_state thrown = (case thrown of None \<Rightarrow> FPending | Some err \<Rightarrow> FRejected err)"

text \<open>
  \<^verbatim>\<open>bufferRequest\<close>: the initialiser pushes the request and sets its \<^verbatim>\<open>flush\<close> hook.
  \<^verbatim>\<open>bufferedRequests\<close> is \<^verbatim>\<open>null\<close> after Initialize; a push throws then.
\<close>

definition bufferRequest :: "ChannelClient \<Rightarrow> IRequest \<Rightarrow> ChannelClient" where
  "bufferRequest c request =
     (case bufferedRequests c of
        None \<Rightarrow>
          c\<lparr>futures := (futures c)(request_id (raw request)
                \<mapsto> \<lparr>fut_state =
                       FRejected (TypeError (''Cannot read property '' @ quote ''push'' @ '' of null'')),
                     fut_buffered = True, fut_flushed = False\<rparr>)\<rparr>
      | Some bs \<Rightarrow>
          c\<lparr>bufferedRequests := Some (bs @ [request\<lparr>flush := True\<rparr>]),
            futures := (futures c)(request_id (raw request)
                          \<mapsto> \<lparr>fut_state = FPending, fut_buffered = True, fut_flushed = False\<rparr>)\<rparr>)"

definition requestPromise ::
  "runtime \<Rightarrow> ChannelClient \<Rightarrow> string \<Rightarrow> string \<Rightarrow> any \<Rightarrow> ChannelClient" where
  "requestPromise rt c channelName name arg =
     (let rid = JNum (int (lastRequestId c));
          c1 = c\<lparr>lastRequestId := lastRequestId c + 1\<rparr>;
          request = \<lparr>raw = Promise rid (JStr channelName) (JStr name) arg, flush = False\<rparr>
      in if state c1 = Uninitialized then bufferRequest c1 request
         else (case doRequest rt c1 request of
                 (thrown, c2) \<Rightarrow>
                   c2\<lparr>futures := (futures c2)(rid
                        \<mapsto> \<lparr>fut_state = initial_state thrown, fut_buffered = False,
                            fut_flushed = False\<rparr>)\<rparr>))"

text \<open>
  \<^verbatim>\<open>requestEvent\<close> makes an emitter and registers its handler. The first listener waits
  for initialisation and then sends EventListen (at once when the client is Idle); removing
  the last listener cancels the wait, or sends EventDispose.
\<close>

definition requestEvent :: "ChannelClient \<Rightarrow> string \<Rightarrow> string \<Rightarrow> any \<Rightarrow> ChannelClient" where
  "requestEvent c channelName name arg =
     (let rid = JNum (int (lastRequestId c))
      in c\<lparr>lastRequestId := lastRequestId c + 1,
           emitters := (emitters c)(rid
              \<mapsto> \<lparr>em_raw = EventListen rid (JStr channelName) (JStr name) arg, em_listeners = 0,
                  em_waiting = False\<rparr>),
           handlers := (handlers c)(to_string rid \<mapsto> EventHandler rid)\<rparr>)"

definition onFirstListenerAdd ::
  "runtime \<Rightarrow> ChannelClient \<Rightarrow> any \<Rightarrow> emitter \<Rightarrow> ChannelClient" where
  "onFirstListenerAdd rt c rid em =
     (if state c = Idle then snd (sendRequest rt c (em_raw em))
      else c\<lparr>emitters := (emitters c)(rid \<mapsto> em\<lparr>em_waiting := True\<rparr>),
             initWaiters := initWaiters c @ [rid]\<rparr>)"

definition onLastListenerRemove ::
  "runtime \<Rightarrow> ChannelClient \<Rightarrow> any \<Rightarrow> emitter \<Rightarrow> ChannelClient" where
  "onLastListenerRemove rt c rid em =
     (if em_waiting em then
        c\<lparr>emitters := (emitters c)(rid \<mapsto> em\<lparr>em_waiting := False\<rparr>),
          initWaiters := removeAll rid (initWaiters c)\<rparr>
      else snd (sendRequest rt c (EventDispose rid)))"

definition addListener :: "runtime \<Rightarrow> ChannelClient \<Rightarrow> any \<Rightarrow> ChannelClient" where
  "addListener rt c rid =
     (case emitters c rid of
        None \<Rightarrow> c
      | Some em \<Rightarrow>
          (let c1 = (if em_listeners em = 0 then onFirstListenerAdd rt c rid em else c)
           in case emitters c1 rid of
                None \<Rightarrow> c1
              | Some em1 \<Rightarrow>
                  c1\<lparr>emitters := (emitters c1)(rid \<mapsto> em1\<lparr>em_listeners := em_listeners em1 + 1\<rparr>)\<rparr>))"

definition removeListener :: "runtime \<Rightarrow> ChannelClient \<Rightarrow> any \<Rightarrow> ChannelClient" where
  "removeListener rt c rid =
     (case emitters c rid of
        None \<Rightarrow> c
      | Some em \<Rightarrow>
          if em_listeners em = 0 then c
          else
            (let em1 = em\<lparr>em_listeners := em_listeners em - 1\<rparr>;
                 c1 = c\<lparr>emitters := (emitters c)(rid \<mapsto> em1)\<rparr>
             in if em_listeners em1 = 0 then onLastListenerRemove rt c1 rid em1 else c1))"

text \<open>Settling the promise of a call: a promise that is settled already stays as it is.\<close>

definition settle :: "ChannelClient \<Rightarrow> any \<Rightarrow> future_state \<Rightarrow> ChannelClient" where
  "settle c rid st =
     (case futures c rid of
        None \<Rightarrow> c
      | Some f \<Rightarrow>
          if fut_state f = FPending then c\<lparr>futures := (futures c)(rid \<mapsto> f\<lparr>fut_state := st\<rparr>)\<rparr>
          else c)"

text \<open>
  Cancelling the promise returned for the call \<open>rid\<close>. Only a pending promise runs its
  cancel function: that of \<^verbatim>\<open>doRequest\<close> sends PromiseCancel; that of
  \<^verbatim>\<open>bufferRequest\<close> clears \<^verbatim>\<open>request.flush\<close> and then, when the client is no longer
  Uninitialized, cancels \<^verbatim>\<open>flushedRequest\<close> if it is set (which runs the cancel function
  of the inner \<^verbatim>\<open>doRequest\<close> promise), and otherwise removes the request from
  \<^verbatim>\<open>bufferedRequests\<close>. The promise then settles with the error named Canceled.
\<close>

definition clear_flush :: "any \<Rightarrow> IRequest list option \<Rightarrow> IRequest list option" where
  "clear_flush rid bs =
     map_option (map (\<lambda>r. if request_id (raw r) = rid then r\<lparr>flush := False\<rparr> else r)) bs"

fun splice_out :: "any \<Rightarrow> IRequest list \<Rightarrow> IRequest list" where
  "splice_out rid [] = []"
| "splice_out rid (r # rs) = (if request_id (raw r) = rid then rs else r # splice_out rid rs)"

definition cancel_buffered ::
  "runtime \<Rightarrow> ChannelClient \<Rightarrow> any \<Rightarrow> call_future \<Rightarrow> ChannelClient" where
  "cancel_buffered rt c rid f =
     (let c1 = c\<lparr>bufferedRequests := clear_flush rid (bufferedRequests c)\<rparr>
      in if state c1 \<noteq> Uninitialized then
           (if fut_flushed f then snd (sendRequest rt c1 (PromiseCancel rid)) else c1)
         else c1\<lparr>bufferedRequests := map_option (splice_out rid) (bufferedRequests c1)\<rparr>)"

definition cancel :: "runtime \<Rightarrow> ChannelClient \<Rightarrow> any \<Rightarrow> ChannelClient" where
  "cancel rt c rid =
     (case futures c rid of
        None \<Rightarrow> c
      | Some f \<Rightarrow>
          if fut_state f = FPending then
            settle
              (if fut_buffered f then cancel_buffered rt c rid f
               else snd (sendRequest rt c (PromiseCancel rid)))
              rid (FRejected canceled)
          else c)"

text \<open>
  The handler of \<^verbatim>\<open>doRequest\<close>. For PromiseError it builds
  \<^verbatim>\<open>new Error(response.data.message)\<close> and assigns \<^verbatim>\<open>response.data.stack\<close> and
  \<^verbatim>\<open>response.data.name\<close> to it, as they are.
\<close>

definition materialize_error :: "any \<Rightarrow> thrown + js_Error" where
  "materialize_error data =
     (case get_prop data ''message'' of
        Inl err \<Rightarrow> Inl err
      | Inr message \<Rightarrow>
          (case get_prop data ''stack'' of
             Inl err \<Rightarrow> Inl err
           | Inr stack \<Rightarrow>
               (case get_prop data ''name'' of
                  Inl err \<Rightarrow> Inl err
                | Inr name \<Rightarrow>
                    Inr (NewError (if message = JUndefined then JStr [] else JStr (to_string message))
                           name stack))))"

definition delete_handler :: "ChannelClient \<Rightarrow> any \<Rightarrow> ChannelClient" where
  "delete_handler c rid = c\<lparr>handlers := (handlers c)(to_string rid := None)\<rparr>"

fun promise_handler :: "ChannelClient \<Rightarrow> any \<Rightarrow> IRawResponse \<Rightarrow> thrown option \<times> ChannelClient" where
  "promise_handler c rid (PromiseSuccess i data) =
     (None, settle (delete_handler c rid) rid (FResolved data))"
| "promise_handler c rid (PromiseError i data) =
     (case materialize_error data of
        Inl err \<Rightarrow> (Some err, delete_handler c rid)
      | Inr error \<Rightarrow>
          (None, settle (delete_handler c rid) rid (FRejected (ErrorInstance error))))"
| "promise_handler c rid (PromiseErrorObj i data) =
     (None, settle (delete_handler c rid) rid (FRejected (OtherValue data)))"
| "promise_handler c rid response = (None, c)"

text \<open>The handler of \<^verbatim>\<open>requestEvent\<close>: \<^verbatim>\<open>emitter.fire(response.data)\<close>.\<close>

fun response_data :: "IRawResponse \<Rightarrow> any" where
  "response_data Initialize = JUndefined"
| "response_data (PromiseSuccess i data) = data"
| "response_data (PromiseError i data) = data"
| "response_data (PromiseErrorObj i data) = data"
| "response_data (EventFire i data) = data"

definition event_handler :: "ChannelClient \<Rightarrow> any \<Rightarrow> IRawResponse \<Rightarrow> ChannelClient" where
  "event_handler c rid response =
     (case emitters c rid of
        None \<Rightarrow> c
      | Some em \<Rightarrow>
          if 0 < em_listeners em
          then c\<lparr>delivered := delivered c @ [(rid, response_data response)]\<rparr>
          else c)"

text \<open>
  \<^verbatim>\<open>onResponse\<close>. On Initialize the state becomes Idle, \<^verbatim>\<open>onDidInitialize\<close> fires
  (every waiting emitter sends its EventListen), the buffered requests are flushed in the
  order of the array and the array is set to \<^verbatim>\<open>null\<close>.
\<close>

definition notify_waiter :: "runtime \<Rightarrow> ChannelClient \<Rightarrow> any \<Rightarrow> ChannelClient" where
  "notify_waiter rt c rid =
     (case emitters c rid of
        None \<Rightarrow> c
      | Some em \<Rightarrow>
          snd (sendRequest rt (c\<lparr>emitters := (emitters c)(rid \<mapsto> em\<lparr>em_waiting := False\<rparr>)\<rparr>)
                 (em_raw em)))"

definition fire_onDidInitialize :: "runtime \<Rightarrow> ChannelClient \<Rightarrow> ChannelClient" where
  "fire_onDidInitialize rt c =
     foldl (notify_waiter rt) (c\<lparr>initWaiters := []\<rparr>) (initWaiters c)"

text \<open>
  \<^verbatim>\<open>request.flush()\<close>: \<^verbatim>\<open>flushedRequest = this.doRequest(request).then(c, e)\<close>. When
  the initialiser of \<^verbatim>\<open>doRequest\<close> throws, the promise it returns is rejected, and
  \<^verbatim>\<open>e\<close> rejects the promise of the call.
\<close>

definition flush_request :: "runtime \<Rightarrow> ChannelClient \<Rightarrow> IRequest \<Rightarrow> ChannelClient" where
  "flush_request rt c r =
     (if flush r then
        (case doRequest rt c r of
           (thrown, c1) \<Rightarrow>
             (case futures c1 (request_id (raw r)) of
                None \<Rightarrow> c1
              | Some f \<Rightarrow>
                  c1\<lparr>futures := (futures c1)(request_id (raw r)
                       \<mapsto> f\<lparr>fut_flushed := True,
                            fut_state := (if fut_state f = FPending then initial_state thrown
                                          else fut_state f)\<rparr>)\<rparr>))
      else c)"

fun response_id :: "IRawResponse \<Rightarrow> any" where
  "response_id Initialize = JUndefined"
| "response_id (PromiseSuccess i data) = i"
| "response_id (PromiseError i data) = i"
| "response_id (PromiseErrorObj i data) = i"
| "response_id (EventFire i data) = i"

definition onResponse ::
  "runtime \<Rightarrow> ChannelClient \<Rightarrow> IRawResponse \<Rightarrow> thrown option \<times> ChannelClient" where
  "onResponse rt c response =
     (if response = Initialize then
        (let c1 = fire_onDidInitialize rt (c\<lparr>state := Idle\<rparr>)
         in case bufferedRequests c1 of
              None \<Rightarrow> (Some (TypeError (''Cannot read property '' @ quote ''forEach'' @ '' of null'')), c1)
            | Some bs \<Rightarrow> (None, (foldl (flush_request rt) c1 bs)\<lparr>bufferedRequests := None\<rparr>))
      else
        (case handlers c (to_string (response_id response)) of
           None \<Rightarrow> (None, c)
         | Some (PromiseHandler rid) \<Rightarrow> promise_handler c rid response
         | Some (EventHandler rid) \<Rightarrow> (None, event_handler c rid response)))"

definition client_onRawMessage ::
  "runtime \<Rightarrow> ChannelClient \<Rightarrow> buffer \<Rightarrow> thrown option \<times> ChannelClient" where
  "client_onRawMessage rt c message =
     (case deserialize rt message of
        Inl err \<Rightarrow> (Some err, c)
      | Inr (header, body) \<Rightarrow>
          (case get_index header 0 of
             Inl err \<Rightarrow> (Some err, c)
           | Inr type \<Rightarrow>
               if type = JNum 200 then onResponse rt c Initialize
               else if type = JNum 201 then onResponse rt c (PromiseSuccess (at header 1) body)
               else if type = JNum 202 then onResponse rt c (PromiseError (at header 1) body)
               else if type = JNum 204 then onResponse rt c (EventFire (at header 1) body)
               else if type = JNum 203 then onResponse rt c (PromiseErrorObj (at header 1) body)
               else (None, c)))"

text \<open>
  The steps of a channel client between its construction and its disposal: a caller makes
  a call or cancels the promise of one, asks for an event, adds or removes a listener of
  one, and the protocol delivers a message (one call of the listener, as for the server).
\<close>

datatype client_event =
    Call string string any
  | Cancel any
  | Listen string string any
  | AddListener any
  | DropListener any
  | Received buffer

fun client_step :: "runtime \<Rightarrow> ChannelClient \<Rightarrow> client_event \<Rightarrow> ChannelClient" where
  "client_step rt c (Call channelName name arg) = requestPromise rt c channelName name arg"
| "client_step rt c (Cancel rid) = cancel rt c rid"
| "client_step rt c (Listen channelName name arg) = requestEvent c channelName name arg"
| "client_step rt c (AddListener rid) = addListener rt c rid"
| "client_step rt c (DropListener rid) = removeListener rt c rid"
| "client_step rt c (Received message) = snd (client_onRawMessage rt c message)"

definition client_run :: "runtime \<Rightarrow> ChannelClient \<Rightarrow> client_event list \<Rightarrow> ChannelClient" where
  "client_run rt c evs = foldl (client_step rt) c evs"

text \<open>The frames of a list of requests: those of the requests that can be serialized.\<close>

fun frames_of :: "runtime \<Rightarrow> IRawRequest list \<Rightarrow> buffer list" where
  "frames_of rt [] = []"
| "frames_of rt (r # rs) =
     (case sendRequest_buffer rt r of
        Inl err \<Rightarrow> frames_of rt rs
      | Inr buffer \<Rightarrow> buffer # frames_of rt rs)"

lemma frames_of_append [simp]: "frames_of rt (xs @ ys) = frames_of rt xs @ frames_of rt ys"
  by (induction xs) (simp_all split: sum.splits)

lemma snd_sendRequest:
  "snd (sendRequest rt c r)
   = c\<lparr>sentRequests := sentRequests c @ [r], sentBuffers := sentBuffers c @ frames_of rt [r]\<rparr>"
  by (simp add: sendRequest_def Let_def split: sum.splits)

text \<open>What \<^verbatim>\<open>sendRequest\<close> throws for a request, if anything.\<close>

definition send_error :: "runtime \<Rightarrow> IRawRequest \<Rightarrow> thrown option" where
  "send_error rt r = (case sendRequest_buffer rt r of Inl err \<Rightarrow> Some err | Inr buffer \<Rightarrow> None)"

lemma fst_sendRequest: "fst (sendRequest rt c r) = send_error rt r"
  by (simp add: sendRequest_def send_error_def Let_def split: sum.splits)

lemma doRequest_eq:
  "doRequest rt c r
   = (send_error rt (raw r),
      c\<lparr>handlers := (handlers c)(to_string (request_id (raw r))
                         \<mapsto> PromiseHandler (request_id (raw r))),
        sentRequests := sentRequests c @ [raw r],
        sentBuffers := sentBuffers c @ frames_of rt [raw r]\<rparr>)"
  by (simp add: doRequest_def sendRequest_def send_error_def Let_def split: sum.splits)

section \<open>Frames that cannot be decoded\<close>

text \<open>
  A frame whose header text is not JSON, and a frame with the body tag 3 whose body is not
  JSON, cannot be decoded: \<^verbatim>\<open>deserialize\<close> throws what \<^verbatim>\<open>JSON.parse\<close> throws.
\<close>

lemma deserialize_bad_header:
  assumes "writeUInt32BE (length headerBuffer) = Inr sz"
    and "JSON_parse rt (Buffer_toString rt headerBuffer) = Inl err"
  shows "deserialize rt (sz @ headerBuffer @ bodyBuffer) = Inl err"
  using assms(2) by (simp add: deserialize_frame [OF assms(1)])

lemma deserialize_bad_body:
  assumes "writeUInt32BE (length headerBuffer) = Inr sz"
    and "JSON_parse rt (Buffer_toString rt headerBuffer) = Inr (JArray [header, JNum 3])"
    and "JSON_parse rt (Buffer_toString rt bodyBuffer) = Inl err"
  shows "deserialize rt (sz @ headerBuffer @ bodyBuffer) = Inl err"
  using assms(2,3) by (simp add: deserialize_frame [OF assms(1)] deserializeBody_def)

text \<open>
  Claim C7, as amended. \<^verbatim>\<open>deserialize\<close> is the first statement of both
  \<^verbatim>\<open>onRawMessage\<close> handlers, and neither handler has a \<^verbatim>\<open>try\<close>. For every incoming
  byte sequence whose decoding fails, the handler throws the error of the decoding to
  whoever delivered the frame, the emitter of the protocol, before anything else has
  happened. The engine is exactly as it was: no promise of a caller is settled, no
  handler runs, no event is delivered and nothing is sent, and a frame that the protocol
  delivers afterwards is handled exactly as if the bad frame had not been delivered.
\<close>

theorem malformed_frame_throws:
  assumes "deserialize rt message = Inl err"
  shows "server_onRawMessage rt s message = (Some err, s)
       \<and> client_onRawMessage rt c message = (Some err, c)
       \<and> server_onRawMessage rt (snd (server_onRawMessage rt s message)) later
         = server_onRawMessage rt s later
       \<and> client_onRawMessage rt (snd (client_onRawMessage rt c message)) later
         = client_onRawMessage rt c later"
proof -
  have server: "server_onRawMessage rt s message = (Some err, s)"
    using assms by (simp add: server_onRawMessage_def)
  have client: "client_onRawMessage rt c message = (Some err, c)"
    using assms by (simp add: client_onRawMessage_def)
  show ?thesis by (simp add: server client)
qed

definition bad_body_frame :: buffer where
  "bad_body_frame = test_frame ''[[201,0],3]'' ''{''"

definition bad_header_frame :: buffer where
  "bad_header_frame = test_frame ''[[201,'' []"

definition unknown_type_frame :: buffer where
  "unknown_type_frame = test_frame ''[[999],0]'' []"

lemma read_success_header_3:
  "json_read ''[[201,0],3]'' = Inr (JArray [JArray [JNum 201, JNum 0], JNum 3])"
  by code_simp

lemma read_unknown_type_header:
  "json_read ''[[999],0]'' = Inr (JArray [JArray [JNum 999], JNum 0])"
  by code_simp

lemma read_bad_body: "json_read ''{'' = Inl (SyntaxError ''Unexpected token in JSON'')"
  by code_simp

lemma read_bad_header: "json_read ''[[201,'' = Inl (SyntaxError ''Unexpected token in JSON'')"
  by code_simp

lemma deserialize_bad_body_frame:
  "deserialize json_rt bad_body_frame = Inl (SyntaxError ''Unexpected token in JSON'')"
proof -
  have len: "length ''[[201,0],3]'' < 256" by simp
  show ?thesis
    unfolding bad_body_frame_def test_frame_parts(1) [OF len]
    by (rule deserialize_bad_body [OF test_frame_parts(2) [OF len],
          where header = "JArray [JNum 201, JNum 0]"])
       (simp_all add: utf8_decode_ascii read_success_header_3 read_bad_body)
qed

lemma deserialize_bad_header_frame:
  "deserialize json_rt bad_header_frame = Inl (SyntaxError ''Unexpected token in JSON'')"
proof -
  have len: "length ''[[201,'' < 256" by simp
  show ?thesis
    unfolding bad_header_frame_def test_frame_parts(1) [OF len]
    by (rule deserialize_bad_header [OF test_frame_parts(2) [OF len]])
       (simp_all add: utf8_decode_ascii read_bad_header)
qed

lemma deserialize_unknown_type_frame:
  "deserialize json_rt unknown_type_frame = Inr (JArray [JNum 999], JUndefined)"
  unfolding unknown_type_frame_def
  by (rule deserialize_ascii_frame [where tag = "JNum 0"])
     (simp_all add: read_unknown_type_header deserializeBody_def)

theorem malformed_frame_throws_witness:
  "deserialize json_rt bad_body_frame = Inl (SyntaxError ''Unexpected token in JSON'')
   \<and> deserialize json_rt bad_header_frame = Inl (SyntaxError ''Unexpected token in JSON'')
   \<and> server_onRawMessage json_rt ChannelServer_new bad_body_frame
     = (Some (SyntaxError ''Unexpected token in JSON''), ChannelServer_new)
   \<and> client_onRawMessage json_rt ChannelClient_new bad_header_frame
     = (Some (SyntaxError ''Unexpected token in JSON''), ChannelClient_new)
   \<and> server_onRawMessage json_rt
        (snd (server_onRawMessage json_rt ChannelServer_new bad_body_frame)) promise_frame
     = server_onRawMessage json_rt ChannelServer_new promise_frame"
  using malformed_frame_throws [OF deserialize_bad_body_frame, of ChannelServer_new
      ChannelClient_new promise_frame]
    malformed_frame_throws [OF deserialize_bad_header_frame, of ChannelServer_new
      ChannelClient_new promise_frame]
    deserialize_bad_body_frame deserialize_bad_header_frame
  by simp

text \<open>
  The claim as it is written fails: the engine does not drop a frame that it cannot
  decode, the handler throws. What dropping a frame is, the same handlers show for a frame
  of a type they do not know: that frame is decoded and the handler returns.
\<close>

theorem malformed_frame_not_dropped_counterexample:
  "fst (server_onRawMessage json_rt ChannelServer_new bad_header_frame) \<noteq> None
   \<and> fst (client_onRawMessage json_rt ChannelClient_new bad_body_frame) \<noteq> None
   \<and> server_onRawMessage json_rt ChannelServer_new unknown_type_frame = (None, ChannelServer_new)
   \<and> client_onRawMessage json_rt ChannelClient_new unknown_type_frame = (None, ChannelClient_new)"
  by (simp add: server_onRawMessage_def client_onRawMessage_def deserialize_bad_header_frame
        deserialize_bad_body_frame deserialize_unknown_type_frame)

section \<open>Error materialisation in the client\<close>

text \<open>The property \<open>k\<close> of an object, \<^verbatim>\<open>undefined\<close> when it has none.\<close>

definition field :: "(string \<times> any) list \<Rightarrow> string \<Rightarrow> any" where
  "field kvs k = (case map_of kvs k of None \<Rightarrow> JUndefined | Some v \<Rightarrow> v)"

lemma materialize_error_object:
  "materialize_error (JObject kvs)
   = Inr (NewError (if field kvs ''message'' = JUndefined then JStr []
                    else JStr (to_string (field kvs ''message'')))
            (field kvs ''name'') (field kvs ''stack''))"
  by (simp add: materialize_error_def field_def)

text \<open>
  Claim C8, as amended. When a PromiseError response arrives for a pending call and its
  body is an object whose \<^verbatim>\<open>message\<close> is a string, the promise of the call is rejected
  with an error object whose message is that string, whose name is the transmitted name
  and whose stack is the transmitted stack as it is: an array of lines stays an array.
\<close>

theorem promise_error_rejects_with_error:
  assumes "deserialize rt message = Inr (header, JObject kvs)"
    and "get_index header 0 = Inr (JNum 202)"
    and "handlers c (to_string (at header 1)) = Some (PromiseHandler rid)"
    and "futures c rid = Some f"
    and "fut_state f = FPending"
    and "field kvs ''message'' = JStr m"
  shows "fst (client_onRawMessage rt c message) = None
       \<and> futures (snd (client_onRawMessage rt c message)) rid
         = Some (f\<lparr>fut_state :=
                    FRejected (ErrorInstance
                      (NewError (JStr m) (field kvs ''name'') (field kvs ''stack'')))\<rparr>)"
  using assms
  by (simp add: client_onRawMessage_def onResponse_def materialize_error_object settle_def
        delete_handler_def)

definition init_frame :: buffer where
  "init_frame = test_frame ''[[200],0]'' []"

lemma deserialize_init_frame:
  "deserialize json_rt init_frame = Inr (JArray [JNum 200], JUndefined)"
  unfolding init_frame_def
  by (rule deserialize_ascii_frame [where tag = "JNum 0"])
     (simp_all add: json_read_init deserializeBody_def)

definition error_data :: any where
  "error_data =
     JObject [(''message'', JStr ''nice error''), (''name'', JStr ''Error''),
              (''stack'', JArray [JStr ''Error: nice error'', JStr ''    at f''])]"

definition error_frame :: buffer where
  "error_frame = test_frame ''[[202,0],3]'' (json_text error_data)"

lemma read_error_header:
  "json_read ''[[202,0],3]'' = Inr (JArray [JArray [JNum 202, JNum 0], JNum 3])"
  by code_simp

lemma read_error_data: "json_read (utf8_decode (json_text error_data)) = Inr error_data"
  by code_simp

lemma deserialize_error_frame:
  "deserialize json_rt error_frame = Inr (JArray [JNum 202, JNum 0], error_data)"
  unfolding error_frame_def
  by (rule deserialize_ascii_frame [where tag = "JNum 3"])
     (simp_all add: read_error_header deserializeBody_def read_error_data del: json_text.simps)

text \<open>The client after Initialize has arrived and one call has been made.\<close>

definition client_called :: ChannelClient where
  "client_called =
     client_run json_rt ChannelClient_new [Received init_frame, Call ''c'' ''n'' JUndefined]"

lemma json_text_promise_header:
  "json_text (JArray [JArray [JNum 100, JNum 0, JStr ''c'', JStr ''n''], JNum 0])
   = ''[[100,0,'' @ [dq] @ ''c'' @ [dq] @ '','' @ [dq] @ ''n'' @ [dq] @ ''],0]''"
  by code_simp

lemma sendRequest_promise_frame:
  "sendRequest_buffer json_rt (Promise (JNum 0) (JStr ''c'') (JStr ''n'') JUndefined)
   = Inr promise_frame"
  unfolding promise_frame_def sendRequest_buffer.simps
  by (rule serialize_ascii_frame [where bodyType = BT_Undefined])
     (simp_all add: json_text_promise_header dq_def del: json_text.simps)

lemma client_called_eq:
  "client_called =
     ChannelClient_new\<lparr>state := Idle, bufferedRequests := None, lastRequestId := 1,
       handlers := [''0'' \<mapsto> PromiseHandler (JNum 0)],
       futures := [JNum 0 \<mapsto> \<lparr>fut_state = FPending, fut_buffered = False, fut_flushed = False\<rparr>],
       sentRequests := [Promise (JNum 0) (JStr ''c'') (JStr ''n'') JUndefined],
       sentBuffers := [promise_frame]\<rparr>"
  by (simp add: client_called_def client_run_def client_onRawMessage_def deserialize_init_frame
        onResponse_def fire_onDidInitialize_def ChannelClient_new_def requestPromise_def Let_def
        doRequest_def sendRequest_def Number_toString_0 sendRequest_promise_frame
        initial_state_def
      del: sendRequest_buffer.simps)

lemma client_called_facts:
  "handlers client_called (to_string (at (JArray [JNum 202, JNum 0]) 1)) = Some (PromiseHandler (JNum 0))"
  "futures client_called (JNum 0)
   = Some \<lparr>fut_state = FPending, fut_buffered = False, fut_flushed = False\<rparr>"
  by (simp_all add: client_called_eq at_def Number_toString_0)

theorem promise_error_rejects_with_error_witness:
  "deserialize json_rt error_frame = Inr (JArray [JNum 202, JNum 0], error_data)
   \<and> fst (client_onRawMessage json_rt client_called error_frame) = None
   \<and> futures (snd (client_onRawMessage json_rt client_called error_frame)) (JNum 0)
     = Some \<lparr>fut_state =
               FRejected (ErrorInstance
                 (NewError (JStr ''nice error'') (JStr ''Error'')
                    (JArray [JStr ''Error: nice error'', JStr ''    at f'']))),
             fut_buffered = False, fut_flushed = False\<rparr>"
proof -
  let ?kvs = "[(''message'', JStr ''nice error''), (''name'', JStr ''Error''),
               (''stack'', JArray [JStr ''Error: nice error'', JStr ''    at f''])]"
  have d: "deserialize json_rt error_frame = Inr (JArray [JNum 202, JNum 0], JObject ?kvs)"
    using deserialize_error_frame by (simp add: error_data_def)
  have t: "get_index (JArray [JNum 202, JNum 0]) 0 = Inr (JNum 202)" by simp
  have p: "fut_state \<lparr>fut_state = FPending, fut_buffered = False, fut_flushed = False\<rparr> = FPending"
    by simp
  have m: "field ?kvs ''message'' = JStr ''nice error''" by (simp add: field_def)
  show ?thesis
    using promise_error_rejects_with_error [OF d t client_called_facts p m] deserialize_error_frame
    by (simp add: field_def)
qed

text \<open>
  The claim as the specification states it (the lines of the stack joined with newlines
  into one string) fails: for a stack transmitted as two lines the rejected error carries
  the array of the two lines, not the joined string.
\<close>

theorem stack_lines_not_joined_counterexample:
  "futures (client_step json_rt client_called (Received error_frame)) (JNum 0)
     = Some \<lparr>fut_state =
               FRejected (ErrorInstance
                 (NewError (JStr ''nice error'') (JStr ''Error'')
                    (JArray [JStr ''Error: nice error'', JStr ''    at f'']))),
             fut_buffered = False, fut_flushed = False\<rparr>
   \<and> JArray [JStr ''Error: nice error'', JStr ''    at f'']
     \<noteq> JStr (join [CHR 0x0A] [''Error: nice error'', ''    at f''])"
  by (simp add: client_onRawMessage_def deserialize_error_frame at_def client_called_eq
        Number_toString_0 onResponse_def error_data_def materialize_error_def settle_def
        delete_handler_def ChannelClient_new_def)

section \<open>Cancelling a call on the client\<close>

fun is_promise_for :: "any \<Rightarrow> IRawRequest \<Rightarrow> bool" where
  "is_promise_for rid (Promise i channelName name arg) = (i = rid)"
| "is_promise_for rid r = False"

text \<open>The Promise request of the call \<open>rid\<close> has been sent.\<close>

definition request_sent :: "ChannelClient \<Rightarrow> any \<Rightarrow> bool" where
  "request_sent c rid = (\<exists>r \<in> set (sentRequests c). is_promise_for rid r)"

definition the_buffer :: "ChannelClient \<Rightarrow> IRequest list" where
  "the_buffer c = (case bufferedRequests c of None \<Rightarrow> [] | Some bs \<Rightarrow> bs)"

definition buffered_ids :: "ChannelClient \<Rightarrow> any list" where
  "buffered_ids c = map (\<lambda>r. request_id (raw r)) (the_buffer c)"

text \<open>An id below the counter \<open>n\<close>: one that the client has handed out.\<close>

definition known :: "nat \<Rightarrow> any \<Rightarrow> bool" where
  "known n rid = (\<exists>i < n. rid = JNum (int i))"

definition unsent :: "call_future \<Rightarrow> bool" where
  "unsent f = (fut_state f = FPending \<and> fut_buffered f \<and> \<not> fut_flushed f)"

definition inv_futures :: "ChannelClient \<Rightarrow> bool" where
  "inv_futures c = (\<forall>rid f. futures c rid = Some f \<longrightarrow> known (lastRequestId c) rid)"

definition inv_emitters :: "ChannelClient \<Rightarrow> bool" where
  "inv_emitters c =
     (\<forall>rid em. emitters c rid = Some em \<longrightarrow>
        known (lastRequestId c) rid \<and> request_id (em_raw em) = rid \<and> futures c rid = None)"

definition inv_sent :: "ChannelClient \<Rightarrow> bool" where
  "inv_sent c = (\<forall>r \<in> set (sentRequests c). known (lastRequestId c) (request_id r))"

definition inv_buffer :: "ChannelClient \<Rightarrow> bool" where
  "inv_buffer c =
     ((\<forall>r \<in> set (the_buffer c).
         flush r \<and> is_promise_for (request_id (raw r)) (raw r)
         \<and> known (lastRequestId c) (request_id (raw r)))
      \<and> distinct (buffered_ids c))"

definition inv_sent_calls :: "ChannelClient \<Rightarrow> bool" where
  "inv_sent_calls c =
     (\<forall>rid f. futures c rid = Some f \<longrightarrow> fut_state f = FPending \<longrightarrow> \<not> unsent f \<longrightarrow>
        request_sent c rid)"

definition inv_unsent :: "ChannelClient \<Rightarrow> bool" where
  "inv_unsent c =
     (\<forall>rid f. futures c rid = Some f \<longrightarrow> unsent f \<longrightarrow>
        rid \<notin> request_id ` set (sentRequests c) \<and> rid \<in> set (buffered_ids c))"

definition inv_flushed :: "ChannelClient \<Rightarrow> bool" where
  "inv_flushed c = (\<forall>rid f. futures c rid = Some f \<longrightarrow> fut_flushed f \<longrightarrow> state c = Idle)"

definition inv_idle :: "ChannelClient \<Rightarrow> bool" where
  "inv_idle c = (state c = Idle \<longrightarrow> bufferedRequests c = None)"

definition client_inv :: "ChannelClient \<Rightarrow> bool" where
  "client_inv c =
     (inv_futures c \<and> inv_emitters c \<and> inv_sent c \<and> inv_buffer c \<and> inv_sent_calls c
      \<and> inv_unsent c \<and> inv_flushed c \<and> inv_idle c)"

lemmas inv_defs = inv_futures_def inv_emitters_def inv_sent_def inv_buffer_def inv_sent_calls_def
  inv_unsent_def inv_flushed_def inv_idle_def

lemma known_Suc [simp]: "known (Suc n) rid = (known n rid \<or> rid = JNum (int n))"
  by (auto simp: known_def less_Suc_eq)


lemma request_sent_simps [simp]:
  "request_sent (c\<lparr>sentRequests := xs\<rparr>) rid = (\<exists>r \<in> set xs. is_promise_for rid r)"
  "request_sent (c\<lparr>lastRequestId := n\<rparr>) rid = request_sent c rid"
  "request_sent (c\<lparr>futures := fs\<rparr>) rid = request_sent c rid"
  "request_sent (c\<lparr>handlers := hs\<rparr>) rid = request_sent c rid"
  "request_sent (c\<lparr>bufferedRequests := bo\<rparr>) rid = request_sent c rid"
  "request_sent (c\<lparr>emitters := es\<rparr>) rid = request_sent c rid"
  "request_sent (c\<lparr>initWaiters := ws\<rparr>) rid = request_sent c rid"
  "request_sent (c\<lparr>delivered := ds\<rparr>) rid = request_sent c rid"
  "request_sent (c\<lparr>state := st\<rparr>) rid = request_sent c rid"
  "request_sent (c\<lparr>sentBuffers := bufs\<rparr>) rid = request_sent c rid"
  by (simp_all add: request_sent_def)

lemma the_buffer_simps [simp]:
  "the_buffer (c\<lparr>bufferedRequests := bo\<rparr>) = (case bo of None \<Rightarrow> [] | Some bs \<Rightarrow> bs)"
  "the_buffer (c\<lparr>sentRequests := xs\<rparr>) = the_buffer c"
  "the_buffer (c\<lparr>lastRequestId := n\<rparr>) = the_buffer c"
  "the_buffer (c\<lparr>futures := fs\<rparr>) = the_buffer c"
  "the_buffer (c\<lparr>handlers := hs\<rparr>) = the_buffer c"
  "the_buffer (c\<lparr>emitters := es\<rparr>) = the_buffer c"
  "the_buffer (c\<lparr>initWaiters := ws\<rparr>) = the_buffer c"
  "the_buffer (c\<lparr>delivered := ds\<rparr>) = the_buffer c"
  "the_buffer (c\<lparr>state := st\<rparr>) = the_buffer c"
  "the_buffer (c\<lparr>sentBuffers := bufs\<rparr>) = the_buffer c"
  by (simp_all add: the_buffer_def)
















subsection \<open>Settling and cancelling\<close>

lemma client_inv_handlers [simp]: "client_inv (c\<lparr>handlers := hs\<rparr>) = client_inv c"
  by (simp add: client_inv_def inv_defs buffered_ids_def)

lemma client_inv_delivered [simp]: "client_inv (c\<lparr>delivered := ds\<rparr>) = client_inv c"
  by (simp add: client_inv_def inv_defs buffered_ids_def)









subsection \<open>Initialize\<close>




lemma notify_waiter_fields [simp]:
  "state (notify_waiter rt c w) = state c"
  "bufferedRequests (notify_waiter rt c w) = bufferedRequests c"
  "futures (notify_waiter rt c w) = futures c"
  "lastRequestId (notify_waiter rt c w) = lastRequestId c"
  "(emitters (notify_waiter rt c w) rid = None) = (emitters c rid = None)"
  by (simp_all add: notify_waiter_def snd_sendRequest split: option.splits)


lemma notify_all_fields [simp]:
  "state (foldl (notify_waiter rt) c ws) = state c"
  "bufferedRequests (foldl (notify_waiter rt) c ws) = bufferedRequests c"
  "futures (foldl (notify_waiter rt) c ws) = futures c"
  "lastRequestId (foldl (notify_waiter rt) c ws) = lastRequestId c"
  "(emitters (foldl (notify_waiter rt) c ws) rid = None) = (emitters c rid = None)"
  by (induction ws arbitrary: c) simp_all














subsection \<open>Ids that are never used again\<close>


definition sends_nothing_for :: "any \<Rightarrow> ChannelClient \<Rightarrow> ChannelClient \<Rightarrow> bool" where
  "sends_nothing_for rid c c' =
     (\<exists>new. sentRequests c' = sentRequests c @ new \<and> rid \<notin> request_id ` set new)"


lemma sends_nothing_for_refl: "sentRequests c' = sentRequests c \<Longrightarrow> sends_nothing_for rid c c'"
  by (simp add: sends_nothing_for_def)


lemma sends_nothing_for_one:
  "request_id r \<noteq> rid \<Longrightarrow> sentRequests c' = sentRequests c @ [r] \<Longrightarrow> sends_nothing_for rid c c'"
  by (auto simp: sends_nothing_for_def)



























section \<open>Buffered calls\<close>

text \<open>
  The Promise requests of the calls of a sequence of events, in the order of the calls.
  \<^verbatim>\<open>requestPromise\<close> and \<^verbatim>\<open>requestEvent\<close> take their ids from the same counter.
\<close>

fun allocates :: "client_event \<Rightarrow> bool" where
  "allocates (Call channelName name arg) = True"
| "allocates (Listen channelName name arg) = True"
| "allocates ev = False"

fun calls_of :: "nat \<Rightarrow> client_event list \<Rightarrow> IRawRequest list" where
  "calls_of n [] = []"
| "calls_of n (Call channelName name arg # evs) =
     Promise (JNum (int n)) (JStr channelName) (JStr name) arg # calls_of (Suc n) evs"
| "calls_of n (Listen channelName name arg # evs) = calls_of (Suc n) evs"
| "calls_of n (Cancel rid # evs) = calls_of n evs"
| "calls_of n (AddListener rid # evs) = calls_of n evs"
| "calls_of n (DropListener rid # evs) = calls_of n evs"
| "calls_of n (Received message # evs) = calls_of n evs"


fun is_listen :: "IRawRequest \<Rightarrow> bool" where
  "is_listen (EventListen rid channelName name arg) = True"
| "is_listen r = False"


subsection \<open>What is handed to the protocol\<close>

definition wire_ok :: "runtime \<Rightarrow> ChannelClient \<Rightarrow> bool" where
  "wire_ok rt c = (sentBuffers c = frames_of rt (sentRequests c))"


lemma wire_ok_update [simp]:
  "wire_ok rt (c\<lparr>state := st\<rparr>) = wire_ok rt c"
  "wire_ok rt (c\<lparr>bufferedRequests := bo\<rparr>) = wire_ok rt c"
  "wire_ok rt (c\<lparr>handlers := hs\<rparr>) = wire_ok rt c"
  "wire_ok rt (c\<lparr>lastRequestId := n\<rparr>) = wire_ok rt c"
  "wire_ok rt (c\<lparr>futures := fs\<rparr>) = wire_ok rt c"
  "wire_ok rt (c\<lparr>emitters := es\<rparr>) = wire_ok rt c"
  "wire_ok rt (c\<lparr>initWaiters := ws\<rparr>) = wire_ok rt c"
  "wire_ok rt (c\<lparr>delivered := ds\<rparr>) = wire_ok rt c"
  by (simp_all add: wire_ok_def)

lemma wire_ok_settle [simp]: "wire_ok rt (settle c rid st) = wire_ok rt c"
  by (simp add: settle_def split: option.splits)













subsection \<open>A client that has not been initialised\<close>

text \<open>
  While the client is Uninitialized and no call is cancelled, the buffer holds the
  requests of the calls made so far, in their order, nothing has been handed to
  \<^verbatim>\<open>sendRequest\<close>, and every event with a listener is waiting for the initialisation.
\<close>

definition buffering :: "ChannelClient \<Rightarrow> client_event list \<Rightarrow> bool" where
  "buffering c evs =
     (lastRequestId c = length (filter allocates evs)
      \<and> (\<exists>bs. bufferedRequests c = Some bs \<and> map raw bs = calls_of 0 evs
              \<and> (\<forall>r \<in> set bs. flush r))
      \<and> sentRequests c = []
      \<and> (\<forall>rid em. emitters c rid = Some em \<longrightarrow>
            is_listen (em_raw em) \<and> (0 < em_listeners em \<longrightarrow> em_waiting em)))"

lemma state_flush_all [simp]: "state (foldl (flush_request rt) c bs) = state c"
  by (induction bs arbitrary: c)
     (simp_all add: flush_request_def doRequest_eq split: option.splits)


lemma state_settle [simp]: "state (settle c rid st) = state c"
  by (simp add: settle_def split: option.splits)

lemma buffering_update [simp]:
  "buffering (c\<lparr>handlers := hs\<rparr>) evs = buffering c evs"
  "buffering (c\<lparr>futures := fs\<rparr>) evs = buffering c evs"
  "buffering (c\<lparr>delivered := ds\<rparr>) evs = buffering c evs"
  "buffering (c\<lparr>initWaiters := ws\<rparr>) evs = buffering c evs"
  by (simp_all add: buffering_def)

lemma buffering_settle [simp]: "buffering (settle c rid st) evs = buffering c evs"
  by (simp add: settle_def split: option.splits)









subsection \<open>Initialize\<close>

















section \<open>IPCServer\<close>

text \<open>
  \<^verbatim>\<open>IPCServer\<close> keeps the channels it offers (\<^verbatim>\<open>channels\<close>, an object used as a
  dictionary: here the list of its entries, a name at most once) and the channel clients
  by peer id (\<^verbatim>\<open>channelClients\<close>: here the index of the connection whose channel
  client it is). The listener of \<^verbatim>\<open>onDidClientConnect\<close> keeps, for every connection,
  what its closure holds: nothing before the first message, then the peer id, the
  \<^verbatim>\<open>ChannelServer\<close> and the \<^verbatim>\<open>ChannelClient\<close> of the connection, which both listen to
  the protocol of the connection until the peer disconnects. The channel server of a
  connection is referred to from this closure only. The routing of \<^verbatim>\<open>getChannel\<close> is
  not part of the model.
\<close>

datatype connection = AwaitingId | Connected string ChannelServer ChannelClient | Disconnected

record IPCServer =
  IPCServer_channels :: "(string \<times> IChannel) list"
  channelClients :: "string \<rightharpoonup> nat"
  connections :: "connection list"

definition IPCServer_new :: IPCServer where
  "IPCServer_new = \<lparr>IPCServer_channels = [], channelClients = Map.empty, connections = []\<rparr>"

text \<open>\<^verbatim>\<open>object[key] = value\<close>: an existing entry is replaced, a new one is added.\<close>

fun assign :: "string \<Rightarrow> 'a \<Rightarrow> (string \<times> 'a) list \<Rightarrow> (string \<times> 'a) list" where
  "assign k v [] = [(k, v)]"
| "assign k v (e # es) = (if fst e = k then (k, v) # es else e # assign k v es)"

definition Object_keys :: "(string \<times> 'a) list \<Rightarrow> string list" where
  "Object_keys object = map fst object"

text \<open>\<^verbatim>\<open>IPCServer.registerChannel\<close>: \<^verbatim>\<open>this.channels[channelName] = channel\<close>.\<close>

definition IPCServer_registerChannel :: "IPCServer \<Rightarrow> string \<Rightarrow> IChannel \<Rightarrow> IPCServer" where
  "IPCServer_registerChannel s channelName channel =
     s\<lparr>IPCServer_channels := assign channelName channel (IPCServer_channels s)\<rparr>"

text \<open>A peer connects: the listener subscribes once to the messages of its protocol.\<close>

definition onDidClientConnect :: "IPCServer \<Rightarrow> IPCServer" where
  "onDidClientConnect s = s\<lparr>connections := connections s @ [AwaitingId]\<rparr>"

text \<open>
  The first message of a connection. The two engines are made, every channel that the
  server offers at this moment is registered on the channel server
  (\<^verbatim>\<open>Object.keys(this.channels).forEach(name => channelServer.registerChannel(name,
  this.channels[name]))\<close>; a key of the object has a value), and the channel client is
  stored under the peer id, the text of the message.
\<close>

definition register_offered ::
  "(string \<times> IChannel) list \<Rightarrow> ChannelServer \<Rightarrow> string \<Rightarrow> ChannelServer" where
  "register_offered object channelServer name =
     (case map_of object name of
        None \<Rightarrow> channelServer
      | Some channel \<Rightarrow> registerChannel channelServer name channel)"

definition onFirstMessage :: "IPCServer \<Rightarrow> nat \<Rightarrow> buffer \<Rightarrow> IPCServer" where
  "onFirstMessage s p rawId =
     (let channelServer =
            foldl (register_offered (IPCServer_channels s)) ChannelServer_new
              (Object_keys (IPCServer_channels s));
          channelClient = ChannelClient_new
      in s\<lparr>channelClients := (channelClients s)(rawId \<mapsto> p),
           connections := (connections s)[p := Connected rawId channelServer channelClient]\<rparr>)"

text \<open>
  A message on the protocol of connection \<open>p\<close>: the first one goes to
  \<^verbatim>\<open>onFirstMessage\<close>, the later ones to the listeners of the two engines, the channel
  server's first.
\<close>

definition onMessage :: "runtime \<Rightarrow> IPCServer \<Rightarrow> nat \<Rightarrow> buffer \<Rightarrow> IPCServer" where
  "onMessage rt s p message =
     (if p < length (connections s) then
        (case connections s ! p of
           AwaitingId \<Rightarrow> onFirstMessage s p message
         | Connected peer channelServer channelClient \<Rightarrow>
             s\<lparr>connections := (connections s)[p :=
                  Connected peer (snd (server_onRawMessage rt channelServer message))
                    (snd (client_onRawMessage rt channelClient message))]\<rparr>
         | Disconnected \<Rightarrow> s)
      else s)"

text \<open>
  The peer of connection \<open>p\<close> disconnects: both engines are disposed and
  \<^verbatim>\<open>channelClients[id]\<close> is deleted. The listener for this exists from the first message
  on.
\<close>

definition onDidClientDisconnect :: "IPCServer \<Rightarrow> nat \<Rightarrow> IPCServer" where
  "onDidClientDisconnect s p =
     (if p < length (connections s) then
        (case connections s ! p of
           Connected peer channelServer channelClient \<Rightarrow>
             s\<lparr>channelClients := (channelClients s)(peer := None),
               connections := (connections s)[p := Disconnected]\<rparr>
         | _ \<Rightarrow> s)
      else s)"

datatype ipc_event =
    Connects
  | Sends nat buffer
  | Disconnects nat
  | Registers string IChannel

fun ipc_step :: "runtime \<Rightarrow> IPCServer \<Rightarrow> ipc_event \<Rightarrow> IPCServer" where
  "ipc_step rt s Connects = onDidClientConnect s"
| "ipc_step rt s (Sends p message) = onMessage rt s p message"
| "ipc_step rt s (Disconnects p) = onDidClientDisconnect s p"
| "ipc_step rt s (Registers channelName channel) = IPCServer_registerChannel s channelName channel"

definition ipc_run :: "runtime \<Rightarrow> IPCServer \<Rightarrow> ipc_event list \<Rightarrow> IPCServer" where
  "ipc_run rt s evs = foldl (ipc_step rt) s evs"

text \<open>The channel server of a connection, once it has one.\<close>

fun channelServer_of :: "connection \<Rightarrow> ChannelServer option" where
  "channelServer_of (Connected peer channelServer channelClient) = Some channelServer"
| "channelServer_of c = None"

fun registers :: "string \<Rightarrow> ipc_event \<Rightarrow> bool" where
  "registers name (Registers channelName channel) = (channelName = name)"
| "registers name ev = False"

subsection \<open>Registering a channel\<close>

lemma map_of_assign: "map_of (assign k v object) n = (if n = k then Some v else map_of object n)"
  by (induction object) auto

lemma keys_assign: "k \<in> set (Object_keys (assign k v object))"
  by (induction object) (auto simp: Object_keys_def)

lemma channels_register_offered:
  "channels (foldl (register_offered object) cs names) n
   = (if n \<in> set names \<and> map_of object n \<noteq> None then map_of object n else channels cs n)"
  by (induction names arbitrary: cs)
     (auto simp: register_offered_def registerChannel_def split: option.splits)

lemma sentResponses_register_offered:
  "sentResponses (foldl (register_offered object) cs names) = sentResponses cs"
  by (induction names arbitrary: cs)
     (auto simp: register_offered_def registerChannel_def split: option.splits)

lemma offered_step:
  assumes "map_of (IPCServer_channels s) name = Some channel" "\<not> registers name ev"
  shows "map_of (IPCServer_channels (ipc_step rt s ev)) name = Some channel"
  using assms
  by (cases ev)
     (auto simp: onDidClientConnect_def onMessage_def onFirstMessage_def Let_def
        onDidClientDisconnect_def IPCServer_registerChannel_def map_of_assign
        split: connection.splits)

lemma offered_run:
  assumes "map_of (IPCServer_channels s) name = Some channel" "\<forall>ev \<in> set evs. \<not> registers name ev"
  shows "map_of (IPCServer_channels (ipc_run rt s evs)) name = Some channel"
  using assms unfolding ipc_run_def
  by (induction evs arbitrary: s) (simp_all add: offered_step)

lemma first_message_channels:
  assumes "map_of (IPCServer_channels s) name = Some channel"
    and "p < length (connections s)" "connections s ! p = AwaitingId"
  shows "\<exists>cs. connections (onMessage rt s p rawId) ! p = Connected rawId cs ChannelClient_new
              \<and> channels cs name = Some channel \<and> sentResponses cs = [Initialize]"
proof -
  have "name \<in> set (Object_keys (IPCServer_channels s))"
    using assms(1) by (auto simp: Object_keys_def dest: map_of_SomeD intro: rev_image_eqI)
  then show ?thesis
    using assms
    by (simp add: onMessage_def onFirstMessage_def Let_def channels_register_offered
          sentResponses_register_offered ChannelServer_new_def)
qed

subsection \<open>The channels of a channel server\<close>

lemma channels_callbacks [simp]: "channels (requestPromise_callbacks s rid st) = channels s"
  by (induction s rid st rule: requestPromise_callbacks.induct)
     (simp_all add: delete_activeRequest_def sendResponse_def split: sum.splits)

lemma channels_onPromise [simp]: "channels (onPromise s rid channelName name arg) = channels s"
  by (simp add: onPromise_def Let_def split: TPromise.splits)

lemma channels_onEventListen [simp]:
  "channels (snd (onEventListen s rid channelName name arg)) = channels s"
  by (simp add: onEventListen_def split: option.splits listen_result.splits)

lemma channels_dispose [simp]: "channels (dispose s d) = channels s"
  by (cases d) (simp_all split: request_promise.splits)

lemma channels_disposeActiveRequest [simp]: "channels (disposeActiveRequest s rid) = channels s"
  by (simp add: disposeActiveRequest_def delete_activeRequest_def split: option.splits)

lemma channels_onRequest [simp]: "channels (snd (onRequest s request)) = channels s"
  by (cases request) simp_all

lemma channels_server_onRawMessage [simp]:
  "channels (snd (server_onRawMessage rt s message)) = channels s"
  by (simp add: server_onRawMessage_def split: sum.splits prod.splits)

text \<open>The channels registered on the channel server of a connection, if it has one.\<close>

definition still_offers :: "(string \<rightharpoonup> IChannel) \<Rightarrow> connection \<Rightarrow> bool" where
  "still_offers registered c =
     (case channelServer_of c of None \<Rightarrow> c = Disconnected | Some cs \<Rightarrow> channels cs = registered)"

lemma still_offers_step:
  assumes "p < length (connections s)" "still_offers registered (connections s ! p)"
  shows "p < length (connections (ipc_step rt s ev))
       \<and> still_offers registered (connections (ipc_step rt s ev) ! p)"
proof (cases ev)
  case Connects
  then show ?thesis using assms by (simp add: onDidClientConnect_def nth_append)
next
  case (Sends q message)
  show ?thesis
  proof (cases "q = p")
    case True
    then show ?thesis
      using assms Sends
      by (cases "connections s ! p")
         (auto simp: onMessage_def still_offers_def)
  next
    case False
    then show ?thesis
      using assms Sends
      by (auto simp: onMessage_def onFirstMessage_def Let_def split: connection.splits)
  qed
next
  case (Disconnects q)
  show ?thesis
  proof (cases "q = p")
    case True
    then show ?thesis
      using assms Disconnects
      by (cases "connections s ! p") (auto simp: onDidClientDisconnect_def still_offers_def)
  next
    case False
    then have "connections (onDidClientDisconnect s q) ! p = connections s ! p"
      "length (connections (onDidClientDisconnect s q)) = length (connections s)"
      by (auto simp: onDidClientDisconnect_def split: connection.splits)
    then show ?thesis using assms Disconnects by simp
  qed
next
  case (Registers channelName channel)
  then show ?thesis using assms by (simp add: IPCServer_registerChannel_def)
qed

lemma still_offers_run:
  assumes "p < length (connections s)" "still_offers registered (connections s ! p)"
  shows "p < length (connections (ipc_run rt s evs))
       \<and> still_offers registered (connections (ipc_run rt s evs) ! p)"
  using assms unfolding ipc_run_def
proof (induction evs arbitrary: s)
  case Nil
  then show ?case by simp
next
  case (Cons ev evs)
  from still_offers_step [OF Cons.prems, of rt ev] Cons.IH [of "ipc_step rt s ev"]
  show ?case by simp
qed

text \<open>
  Claim C9. A channel is registered on an IPC server that has a connected peer.
  The registration changes the channels the server offers and nothing else: the
  connections that exist are as they were, and whatever happens afterwards, the channel
  server of the connected peer has the channels it had before, until the peer disconnects.
  A connection whose first message arrives afterwards, however much happens in between
  short of registering the name again, gets a channel server on which the channel is
  registered.
\<close>

theorem registerChannel_reaches_future_connections:
  assumes "s' = ipc_run rt (IPCServer_registerChannel s name channel) evs"
    and "\<forall>ev \<in> set evs. \<not> registers name ev"
    and "p < length (connections s')" and "connections s' ! p = AwaitingId"
    and "q < length (connections s)" and "connections s ! q = Connected peer cs cc"
  shows "connections (IPCServer_registerChannel s name channel) = connections s
       \<and> still_offers (channels cs) (connections s' ! q)
       \<and> (\<exists>cs'. connections (onMessage rt s' p rawId) ! p = Connected rawId cs' ChannelClient_new
                 \<and> channels cs' name = Some channel \<and> sentResponses cs' = [Initialize])"
proof -
  let ?s1 = "IPCServer_registerChannel s name channel"
  have same: "connections ?s1 = connections s"
    by (simp add: IPCServer_registerChannel_def)
  have "still_offers (channels cs) (connections ?s1 ! q)"
    using assms(6) by (simp add: same still_offers_def)
  with assms(5) have old: "still_offers (channels cs) (connections s' ! q)"
    unfolding assms(1) using still_offers_run [of q ?s1 "channels cs" rt evs] by (simp add: same)
  have "map_of (IPCServer_channels ?s1) name = Some channel"
    by (simp add: IPCServer_registerChannel_def map_of_assign)
  then have "map_of (IPCServer_channels s') name = Some channel"
    unfolding assms(1) using assms(2) by (rule offered_run)
  from first_message_channels [OF this assms(3,4)] same old show ?thesis
    by simp
qed

text \<open>
  One peer is connected when the channel \<open>c\<close> is registered, a second one connects
  afterwards.
\<close>

definition ipc_one_connected :: IPCServer where
  "ipc_one_connected = ipc_run json_rt IPCServer_new [Connects, Sends 0 ''client1'']"

lemma ipc_one_connected_eq:
  "ipc_one_connected
   = \<lparr>IPCServer_channels = [], channelClients = [''client1'' \<mapsto> 0],
      connections = [Connected ''client1'' ChannelServer_new ChannelClient_new]\<rparr>"
  by (simp add: ipc_one_connected_def ipc_run_def IPCServer_new_def onDidClientConnect_def
        onMessage_def onFirstMessage_def Let_def Object_keys_def)

theorem registerChannel_reaches_future_connections_witness:
  "connections (IPCServer_registerChannel ipc_one_connected ''c'' never_channel)
   = [Connected ''client1'' ChannelServer_new ChannelClient_new]
   \<and> connections
        (ipc_run json_rt (IPCServer_registerChannel ipc_one_connected ''c'' never_channel)
           [Connects, Sends 1 ''client2''])
     = [Connected ''client1'' ChannelServer_new ChannelClient_new,
        Connected ''client2'' (registerChannel ChannelServer_new ''c'' never_channel)
          ChannelClient_new]
   \<and> channels (registerChannel ChannelServer_new ''c'' never_channel) ''c'' = Some never_channel"
proof -
  let ?s1 = "IPCServer_registerChannel ipc_one_connected ''c'' never_channel"
  note defs = ipc_run_def ipc_one_connected_eq IPCServer_registerChannel_def
    onDidClientConnect_def onMessage_def onFirstMessage_def Let_def Object_keys_def
    register_offered_def
  have hyps: "\<forall>ev \<in> set [Connects]. \<not> registers ''c'' ev"
    "1 < length (connections (ipc_run json_rt ?s1 [Connects]))"
    "connections (ipc_run json_rt ?s1 [Connects]) ! 1 = AwaitingId"
    "0 < length (connections ipc_one_connected)"
    "connections ipc_one_connected ! 0 = Connected ''client1'' ChannelServer_new ChannelClient_new"
    by (simp_all add: defs)
  from registerChannel_reaches_future_connections [OF refl hyps, of "''client2''"]
  have "connections ?s1 = connections ipc_one_connected" by (rule conjunct1)
  then have A: "connections ?s1 = [Connected ''client1'' ChannelServer_new ChannelClient_new]"
    by (simp add: ipc_one_connected_eq)
  have B: "connections (ipc_run json_rt ?s1 [Connects, Sends 1 ''client2''])
     = [Connected ''client1'' ChannelServer_new ChannelClient_new,
        Connected ''client2'' (registerChannel ChannelServer_new ''c'' never_channel)
          ChannelClient_new]"
    by (simp add: defs)
  have C: "channels (registerChannel ChannelServer_new ''c'' never_channel) ''c''
           = Some never_channel"
    by (simp add: registerChannel_def)
  from A B C show ?thesis by (intro conjI)
qed

text \<open>
  The claim as it is written fails: the channel server of the peer that was connected
  when \<open>c\<close> was registered does not have the channel, and answers a request for it as
  for any channel that is not registered.
\<close>

theorem registerChannel_existing_connection_counterexample:
  "channelServer_of
     (connections
        (ipc_run json_rt IPCServer_new
           [Connects, Sends 0 ''client1'', Registers ''c'' never_channel]) ! 0)
   = Some ChannelServer_new
   \<and> channels ChannelServer_new ''c'' = None
   \<and> channelServer_of
       (connections
          (ipc_run json_rt IPCServer_new
             [Connects, Sends 0 ''client1'', Registers ''c'' never_channel,
              Sends 0 listen_frame]) ! 0)
     = Some ChannelServer_new
   \<and> server_onRawMessage json_rt ChannelServer_new listen_frame
     = (Some listen_unknown_channel, ChannelServer_new)"
proof -
  have l: "server_onRawMessage json_rt ChannelServer_new listen_frame
           = (Some listen_unknown_channel, ChannelServer_new)"
    by (simp add: server_onRawMessage_def deserialize_listen_frame at_def onEventListen_def
          ChannelServer_new_def sendResponse_def)
  show ?thesis
    by (simp add: l ipc_run_def IPCServer_new_def onDidClientConnect_def onMessage_def
          onFirstMessage_def Let_def Object_keys_def IPCServer_registerChannel_def)
       (simp add: ChannelServer_new_def sendResponse_def)
qed

end
